theory Spec2Isabelle
  imports Main "HOL-Library.AList" "HOL-Library.Sublist"
begin

section \<open>The image merger bot (fixed\_merger\_bot.py)\<close>

text \<open>
  The development embeds the most complete bot variant, \<^verbatim>\<open>src/fixed_merger_bot.py\<close>:
  the placement arithmetic of \<^verbatim>\<open>process_name\<close>, the preset file
  (\<^verbatim>\<open>load_presets\<close>, \<^verbatim>\<open>save_presets\<close>) and the handlers that read and
  write the per-user session dictionary \<^verbatim>\<open>user_data\<close>.

  Python's unbounded integers are \<^typ>\<open>int\<close>; Python's floor division \<^verbatim>\<open>//\<close> is
  \<open>div\<close> on \<^typ>\<open>int\<close>, which rounds towards minus infinity as well.
\<close>

subsection \<open>Configuration constants\<close>

definition REF_IMAGE_SIZE :: int where
  "REF_IMAGE_SIZE = 400"

subsection \<open>Placement of the reference image and of the label\<close>

text \<open>
  Lines 966-976 of \<^verbatim>\<open>process_name\<close>:
  \<^verbatim>\<open>
  ref_center_x = main_width // 2
  x_position = ref_center_x - (REF_IMAGE_SIZE // 2) + spacing['image_x']
  x_position = max(0, min(x_position, main_width - REF_IMAGE_SIZE))
  \<close>
  and the same on the Y axis with \<^verbatim>\<open>main_height\<close> and \<^verbatim>\<open>spacing['image_y']\<close>.
  Both axes run the same arithmetic, so one function serves both.
\<close>

definition ref_center :: "int \<Rightarrow> int" where
  "ref_center main_dim = main_dim div 2"

definition ref_position_raw :: "int \<Rightarrow> int \<Rightarrow> int" where
  "ref_position_raw main_dim offset = ref_center main_dim - (REF_IMAGE_SIZE div 2) + offset"

definition ref_position :: "int \<Rightarrow> int \<Rightarrow> int" where
  "ref_position main_dim offset =
     max 0 (min (ref_position_raw main_dim offset) (main_dim - REF_IMAGE_SIZE))"

text \<open>The paste anchor \<^verbatim>\<open>(x_position, y_position)\<close>.\<close>

definition ref_anchor :: "int \<Rightarrow> int \<Rightarrow> int \<Rightarrow> int \<Rightarrow> int \<times> int" where
  "ref_anchor main_width main_height image_x image_y =
     (ref_position main_width image_x, ref_position main_height image_y)"

text \<open>
  Lines 1040-1046 of \<^verbatim>\<open>process_name\<close>:
  \<^verbatim>\<open>
  text_x = (main_width - text_width) // 2 + spacing['text_x']
  text_y = main_height - text_height - 30 + spacing['text_y']
  text_x = max(10, min(text_x, main_width - text_width - 10))
  text_y = max(10, min(text_y, main_height - text_height - 10))
  \<close>
\<close>

definition text_x_position :: "int \<Rightarrow> int \<Rightarrow> int \<Rightarrow> int" where
  "text_x_position main_width text_width text_x =
     max 10 (min ((main_width - text_width) div 2 + text_x) (main_width - text_width - 10))"

definition text_y_position :: "int \<Rightarrow> int \<Rightarrow> int \<Rightarrow> int" where
  "text_y_position main_height text_height text_y =
     max 10 (min (main_height - text_height - 30 + text_y) (main_height - text_height - 10))"

text \<open>
  The clamp of the specification, written from its words: \<open>clamp(v, lo, hi)\<close> bounds
  \<open>v\<close> by \<open>hi\<close> from above and then by \<open>lo\<close> from below, so that an empty range
  collapses to \<open>lo\<close> (the specification's "clamp collapses to 0").
\<close>

definition spec_clamp :: "int \<Rightarrow> int \<Rightarrow> int \<Rightarrow> int" where
  "spec_clamp v lo hi = max lo (min v hi)"

definition spec_anchor :: "int \<Rightarrow> int \<Rightarrow> int \<Rightarrow> int" where
  "spec_anchor main_dim ref_side offset =
     spec_clamp ((main_dim - ref_side) div 2 + offset) 0 (main_dim - ref_side)"

subsection \<open>Python strings\<close>

text \<open>
  A Python \<^verbatim>\<open>str\<close> is modelled by its UTF-8 bytes, a \<^typ>\<open>string\<close>. Equality,
  \<^verbatim>\<open>startswith\<close> and the search for a substring are the same on code points and on
  their UTF-8 encoding. \<^verbatim>\<open>str.strip()\<close> and \<^verbatim>\<open>int()\<close> look at the characters: the
  whitespace and the decimal digits of Unicode are given below by their encodings.
\<close>

text \<open>
  The whitespace that \<^verbatim>\<open>int()\<close> ignores around a literal: U+0009-U+000D, U+0020,
  U+0085, U+00A0, U+1680, U+2000-U+200A, U+2028, U+2029, U+202F, U+205F and U+3000.
  \<^verbatim>\<open>str.strip()\<close> removes these and the four separators U+001C-U+001F.
\<close>

definition INT_WHITESPACE :: "string list" where
  "INT_WHITESPACE =
     [[CHR 0x09], [CHR 0x0A], [CHR 0x0B], [CHR 0x0C], [CHR 0x0D], [CHR 0x20],
      [CHR 0xC2, CHR 0x85], [CHR 0xC2, CHR 0xA0], [CHR 0xE1, CHR 0x9A, CHR 0x80],
      [CHR 0xE2, CHR 0x80, CHR 0x80], [CHR 0xE2, CHR 0x80, CHR 0x81],
      [CHR 0xE2, CHR 0x80, CHR 0x82], [CHR 0xE2, CHR 0x80, CHR 0x83],
      [CHR 0xE2, CHR 0x80, CHR 0x84], [CHR 0xE2, CHR 0x80, CHR 0x85],
      [CHR 0xE2, CHR 0x80, CHR 0x86], [CHR 0xE2, CHR 0x80, CHR 0x87],
      [CHR 0xE2, CHR 0x80, CHR 0x88], [CHR 0xE2, CHR 0x80, CHR 0x89],
      [CHR 0xE2, CHR 0x80, CHR 0x8A], [CHR 0xE2, CHR 0x80, CHR 0xA8],
      [CHR 0xE2, CHR 0x80, CHR 0xA9], [CHR 0xE2, CHR 0x80, CHR 0xAF],
      [CHR 0xE2, CHR 0x81, CHR 0x9F], [CHR 0xE3, CHR 0x80, CHR 0x80]]"

definition WHITESPACE :: "string list" where
  "WHITESPACE = INT_WHITESPACE @ [[CHR 0x1C], [CHR 0x1D], [CHR 0x1E], [CHR 0x1F]]"

text \<open>
  \<open>strip_leading ws s\<close> removes from the front of \<open>s\<close> every leading occurrence of a
  member of \<open>ws\<close>. The end of a string is stripped on the reversed bytes: a UTF-8 string
  ends with the encoding of a character exactly when it ends with that character.
\<close>

fun strip_leading :: "string list \<Rightarrow> string \<Rightarrow> string" where
  "strip_leading ws [] = []"
| "strip_leading ws (c # cs) =
     (case find (\<lambda>w. w \<noteq> [] \<and> prefix w (c # cs)) ws of
        None \<Rightarrow> c # cs
      | Some w \<Rightarrow> strip_leading ws (drop (length w - 1) cs))"

definition strip_both :: "string list \<Rightarrow> string \<Rightarrow> string" where
  "strip_both ws s = rev (strip_leading (map rev ws) (rev (strip_leading ws s)))"

definition py_strip :: "string \<Rightarrow> string" where
  "py_strip s = strip_both WHITESPACE s"

text \<open>
  The decimal digits that \<^verbatim>\<open>int()\<close> accepts are the characters of the Unicode category
  Nd. They come in runs of ten consecutive code points from a digit zero to a digit nine,
  and the encodings of one run differ in the last byte only. The table holds the digit
  zero of each of the 66 runs of Unicode 14.0, the version of CPython 3.11; the first entry
  is the ASCII zero.
\<close>

definition DECIMAL_ZEROS :: "string list" where
  "DECIMAL_ZEROS =
     [[CHR 0x30], [CHR 0xD9, CHR 0xA0], [CHR 0xDB, CHR 0xB0], [CHR 0xDF, CHR 0x80],
      [CHR 0xE0, CHR 0xA5, CHR 0xA6], [CHR 0xE0, CHR 0xA7, CHR 0xA6],
      [CHR 0xE0, CHR 0xA9, CHR 0xA6], [CHR 0xE0, CHR 0xAB, CHR 0xA6],
      [CHR 0xE0, CHR 0xAD, CHR 0xA6], [CHR 0xE0, CHR 0xAF, CHR 0xA6],
      [CHR 0xE0, CHR 0xB1, CHR 0xA6], [CHR 0xE0, CHR 0xB3, CHR 0xA6],
      [CHR 0xE0, CHR 0xB5, CHR 0xA6], [CHR 0xE0, CHR 0xB7, CHR 0xA6],
      [CHR 0xE0, CHR 0xB9, CHR 0x90], [CHR 0xE0, CHR 0xBB, CHR 0x90],
      [CHR 0xE0, CHR 0xBC, CHR 0xA0], [CHR 0xE1, CHR 0x81, CHR 0x80],
      [CHR 0xE1, CHR 0x82, CHR 0x90], [CHR 0xE1, CHR 0x9F, CHR 0xA0],
      [CHR 0xE1, CHR 0xA0, CHR 0x90], [CHR 0xE1, CHR 0xA5, CHR 0x86],
      [CHR 0xE1, CHR 0xA7, CHR 0x90], [CHR 0xE1, CHR 0xAA, CHR 0x80],
      [CHR 0xE1, CHR 0xAA, CHR 0x90], [CHR 0xE1, CHR 0xAD, CHR 0x90],
      [CHR 0xE1, CHR 0xAE, CHR 0xB0], [CHR 0xE1, CHR 0xB1, CHR 0x80],
      [CHR 0xE1, CHR 0xB1, CHR 0x90], [CHR 0xEA, CHR 0x98, CHR 0xA0],
      [CHR 0xEA, CHR 0xA3, CHR 0x90], [CHR 0xEA, CHR 0xA4, CHR 0x80],
      [CHR 0xEA, CHR 0xA7, CHR 0x90], [CHR 0xEA, CHR 0xA7, CHR 0xB0],
      [CHR 0xEA, CHR 0xA9, CHR 0x90], [CHR 0xEA, CHR 0xAF, CHR 0xB0],
      [CHR 0xEF, CHR 0xBC, CHR 0x90], [CHR 0xF0, CHR 0x90, CHR 0x92, CHR 0xA0],
      [CHR 0xF0, CHR 0x90, CHR 0xB4, CHR 0xB0], [CHR 0xF0, CHR 0x91, CHR 0x81, CHR 0xA6],
      [CHR 0xF0, CHR 0x91, CHR 0x83, CHR 0xB0], [CHR 0xF0, CHR 0x91, CHR 0x84, CHR 0xB6],
      [CHR 0xF0, CHR 0x91, CHR 0x87, CHR 0x90], [CHR 0xF0, CHR 0x91, CHR 0x8B, CHR 0xB0],
      [CHR 0xF0, CHR 0x91, CHR 0x91, CHR 0x90], [CHR 0xF0, CHR 0x91, CHR 0x93, CHR 0x90],
      [CHR 0xF0, CHR 0x91, CHR 0x99, CHR 0x90], [CHR 0xF0, CHR 0x91, CHR 0x9B, CHR 0x80],
      [CHR 0xF0, CHR 0x91, CHR 0x9C, CHR 0xB0], [CHR 0xF0, CHR 0x91, CHR 0xA3, CHR 0xA0],
      [CHR 0xF0, CHR 0x91, CHR 0xA5, CHR 0x90], [CHR 0xF0, CHR 0x91, CHR 0xB1, CHR 0x90],
      [CHR 0xF0, CHR 0x91, CHR 0xB5, CHR 0x90], [CHR 0xF0, CHR 0x91, CHR 0xB6, CHR 0xA0],
      [CHR 0xF0, CHR 0x96, CHR 0xA9, CHR 0xA0], [CHR 0xF0, CHR 0x96, CHR 0xAB, CHR 0x80],
      [CHR 0xF0, CHR 0x96, CHR 0xAD, CHR 0x90], [CHR 0xF0, CHR 0x9D, CHR 0x9F, CHR 0x8E],
      [CHR 0xF0, CHR 0x9D, CHR 0x9F, CHR 0x98], [CHR 0xF0, CHR 0x9D, CHR 0x9F, CHR 0xA2],
      [CHR 0xF0, CHR 0x9D, CHR 0x9F, CHR 0xAC], [CHR 0xF0, CHR 0x9D, CHR 0x9F, CHR 0xB6],
      [CHR 0xF0, CHR 0x9E, CHR 0x85, CHR 0x80], [CHR 0xF0, CHR 0x9E, CHR 0x8B, CHR 0xB0],
      [CHR 0xF0, CHR 0x9E, CHR 0xA5, CHR 0x90], [CHR 0xF0, CHR 0x9F, CHR 0xAF, CHR 0xB0]]"

text \<open>
  \<open>digit_from zero s\<close> is the value of the digit at the front of \<open>s\<close> when that digit
  belongs to the run that starts with \<open>zero\<close>; \<open>digit_lookup\<close> tries every run and
  returns the value together with the number of bytes of the digit.
\<close>

fun digit_from :: "string \<Rightarrow> string \<Rightarrow> nat option" where
  "digit_from [] s = None"
| "digit_from (z # zs) [] = None"
| "digit_from [z] (c # cs) =
     (if (of_char z :: nat) \<le> of_char c \<and> (of_char c :: nat) \<le> of_char z + 9
      then Some (of_char c - of_char z) else None)"
| "digit_from (z # z' # zs) (c # cs) = (if z = c then digit_from (z' # zs) cs else None)"

fun digit_lookup :: "string list \<Rightarrow> string \<Rightarrow> (nat \<times> nat) option" where
  "digit_lookup [] s = None"
| "digit_lookup (zero # zeros) s =
     (case digit_from zero s of
        Some d \<Rightarrow> Some (d, length zero)
      | None \<Rightarrow> digit_lookup zeros s)"

text \<open>
  The digits of an integer literal as \<^verbatim>\<open>int()\<close> reads them: at least one digit, and
  single underscores allowed between two digits (\<^verbatim>\<open>int("1_000") == 1000\<close>).
\<close>

function py_digits :: "string \<Rightarrow> nat \<Rightarrow> nat option" where
  "py_digits [] acc = None"
| "py_digits (c # cs) acc =
     (case digit_lookup DECIMAL_ZEROS (c # cs) of
        None \<Rightarrow> None
      | Some (d, width) \<Rightarrow>
          (case drop (width - 1) cs of
             [] \<Rightarrow> Some (10 * acc + d)
           | c' # cs' \<Rightarrow>
               if c' = CHR ''_'' then py_digits cs' (10 * acc + d)
               else py_digits (c' # cs') (10 * acc + d)))"
  by pat_completeness auto
termination
proof (relation "measure (\<lambda>(s, acc). length s)")
  fix c :: char and cs :: string and acc :: nat and x2 :: "nat \<times> nat" and d width :: nat
    and c' :: char and cs' :: string
  assume rest: "drop (width - 1) cs = c' # cs'"
  then have "length (c' # cs') \<le> length cs"
    by (metis length_drop diff_le_self)
  then show "((cs', 10 * acc + d), c # cs, acc) \<in> measure (\<lambda>(s, acc). length s)"
    and "((c' # cs', 10 * acc + d), c # cs, acc) \<in> measure (\<lambda>(s, acc). length s)"
    by simp_all
qed simp

text \<open>
  \<^verbatim>\<open>int(s)\<close> in base 10: surrounding whitespace is ignored, one ASCII sign may precede
  the digits. \<open>None\<close> is the \<^verbatim>\<open>ValueError\<close>. (CPython 3.11 also raises it for a
  literal of more than 4300 digits; a Telegram message holds at most 4096 characters.)
\<close>

definition py_int :: "string \<Rightarrow> int option" where
  "py_int s =
     (case strip_both INT_WHITESPACE s of
        [] \<Rightarrow> None
      | c # cs \<Rightarrow>
          if c = CHR ''-'' then map_option (\<lambda>n. - int n) (py_digits cs 0)
          else if c = CHR ''+'' then map_option int (py_digits cs 0)
          else map_option int (py_digits (c # cs) 0))"

subsection \<open>Button texts\<close>

text \<open>The reply-keyboard labels that the handlers compare the message text with.\<close>

definition CANCEL_TEXT :: string where
  "CANCEL_TEXT = [CHR 0xE2, CHR 0x9D, CHR 0x8C] @ '' Cancel''"

definition BACK_TEXT :: string where
  "BACK_TEXT = [CHR 0xE2, CHR 0xAC, CHR 0x85, CHR 0xEF, CHR 0xB8, CHR 0x8F] @ '' Back''"

definition IMAGE_X_TEXT :: string where
  "IMAGE_X_TEXT = [CHR 0xE2, CHR 0x97, CHR 0x80, CHR 0xEF, CHR 0xB8, CHR 0x8F]
     @ '' Move Image Left/Right '' @ [CHR 0xE2, CHR 0x96, CHR 0xB6, CHR 0xEF, CHR 0xB8, CHR 0x8F]"

definition IMAGE_Y_TEXT :: string where
  "IMAGE_Y_TEXT = [CHR 0xF0, CHR 0x9F, CHR 0x94, CHR 0xBC]
     @ '' Move Image Up/Down '' @ [CHR 0xF0, CHR 0x9F, CHR 0x94, CHR 0xBD]"

definition TEXT_X_TEXT :: string where
  "TEXT_X_TEXT = [CHR 0xE2, CHR 0x97, CHR 0x80, CHR 0xEF, CHR 0xB8, CHR 0x8F]
     @ '' Move Text Left/Right '' @ [CHR 0xE2, CHR 0x96, CHR 0xB6, CHR 0xEF, CHR 0xB8, CHR 0x8F]"

definition TEXT_Y_TEXT :: string where
  "TEXT_Y_TEXT = [CHR 0xF0, CHR 0x9F, CHR 0x94, CHR 0xBC]
     @ '' Move Text Up/Down '' @ [CHR 0xF0, CHR 0x9F, CHR 0x94, CHR 0xBD]"

subsection \<open>Dictionaries\<close>

text \<open>
  A Python \<^verbatim>\<open>dict\<close> with string keys is an association list in insertion order:
  \<^verbatim>\<open>k in d\<close> is \<open>has_key d k\<close>, \<^verbatim>\<open>d[k]\<close> is \<open>map_of d k\<close> (with \<open>None\<close> the
  \<^verbatim>\<open>KeyError\<close>), \<^verbatim>\<open>d[k] = v\<close> is \<open>AList.update k v d\<close>, which overwrites in
  place or appends, and \<^verbatim>\<open>del d[k]\<close> is \<open>AList.delete k d\<close>.

  The preset document is a JSON object from preset names to objects whose
  \<^verbatim>\<open>"spacing"\<close> member is an object from key names to integers.
\<close>

type_synonym spacing = "(string \<times> int) list"
type_synonym preset_data = "(string \<times> spacing) list"
type_synonym presets = "(string \<times> preset_data) list"

definition has_key :: "('k \<times> 'v) list \<Rightarrow> 'k \<Rightarrow> bool" where
  "has_key d k = (map_of d k \<noteq> None)"

definition DEFAULT_SPACING :: spacing where
  "DEFAULT_SPACING = [(''image_x'', 0), (''image_y'', 0), (''text_x'', 0), (''text_y'', 0)]"

definition SPACING_KEYS :: "string list" where
  "SPACING_KEYS = [''image_x'', ''image_y'', ''text_x'', ''text_y'']"

text \<open>
  The four statements \<^verbatim>\<open>if "image_x" not in spacing: spacing["image_x"] = 0\<close> ... that
  \<^verbatim>\<open>presets_menu\<close>, \<^verbatim>\<open>edit_preset\<close>, \<^verbatim>\<open>start_new_image\<close> and
  \<^verbatim>\<open>load_preset\<close> each run on the spacing of a loaded preset.
\<close>

definition set_if_missing :: "string \<Rightarrow> spacing \<Rightarrow> spacing" where
  "set_if_missing k spacing = (if has_key spacing k then spacing else AList.update k 0 spacing)"

definition fill_missing_keys :: "spacing \<Rightarrow> spacing" where
  "fill_missing_keys spacing =
     set_if_missing ''text_y'' (set_if_missing ''text_x''
       (set_if_missing ''image_y'' (set_if_missing ''image_x'' spacing)))"

subsection \<open>The preset file\<close>

text \<open>
  The file \<^verbatim>\<open>spacing_presets.json\<close>: absent, or holding a content. \<open>Json d\<close> is a file
  whose text is the JSON of the dictionary \<open>d\<close>; \<^verbatim>\<open>json.dump\<close> followed by
  \<^verbatim>\<open>json.load\<close> is the identity on dictionaries of strings and integers, so the model
  keeps the dictionary. \<open>Unreadable\<close> is any content on which opening, parsing or the
  migration loop raises. \<open>writable\<close> tells whether \<^verbatim>\<open>open(PRESETS_FILE, 'w')\<close>
  succeeds; \<open>writes\<close> counts the completed writes.
\<close>

datatype file_content = Unreadable | Json presets

record filesystem =
  presets_file :: "file_content option"
  writable :: bool
  writes :: nat

text \<open>\<^verbatim>\<open>with open(PRESETS_FILE, 'w') as f: json.dump(presets, f)\<close>; \<open>None\<close> when it raises.\<close>

definition dump_presets :: "presets \<Rightarrow> filesystem \<Rightarrow> filesystem option" where
  "dump_presets presets fs =
     (if writable fs
      then Some (fs\<lparr>presets_file := Some (Json presets), writes := writes fs + 1\<rparr>)
      else None)"

text \<open>The test of line 78: \<^verbatim>\<open>"top" in spacing and "image_x" not in spacing\<close>.\<close>

definition old_format :: "spacing \<Rightarrow> bool" where
  "old_format spacing = (has_key spacing ''top'' \<and> \<not> has_key spacing ''image_x'')"

text \<open>
  The loop of lines 73-86 over \<^verbatim>\<open>presets.items()\<close>, with the flag \<^verbatim>\<open>migrated\<close>
  passed along; it returns the dictionary as the loop leaves it and the final flag.
\<close>

fun migrate_loop :: "presets \<Rightarrow> bool \<Rightarrow> presets \<times> bool" where
  "migrate_loop [] migrated = ([], migrated)"
| "migrate_loop ((preset_name, preset_data) # rest) migrated =
     (case map_of preset_data ''spacing'' of
        None \<Rightarrow>
          (case migrate_loop rest migrated of
             (rest', flag) \<Rightarrow> ((preset_name, preset_data) # rest', flag))
      | Some spacing \<Rightarrow>
          if old_format spacing
          then (case migrate_loop rest True of
                  (rest', flag) \<Rightarrow>
                    ((preset_name,
                      AList.update ''spacing''
                        [(''image_x'', 0), (''image_y'', 0), (''text_x'', 0), (''text_y'', 0)]
                        preset_data) # rest', flag))
          else (case migrate_loop rest migrated of
                  (rest', flag) \<Rightarrow> ((preset_name, preset_data) # rest', flag)))"

text \<open>
  \<^verbatim>\<open>load_presets\<close>: a missing file and any exception give the empty dictionary; a
  failure to write the migrated dictionary back is logged and the migrated dictionary is
  returned all the same.
\<close>

definition load_presets :: "filesystem \<Rightarrow> presets \<times> filesystem" where
  "load_presets fs =
     (case presets_file fs of
        None \<Rightarrow> ([], fs)
      | Some Unreadable \<Rightarrow> ([], fs)
      | Some (Json stored) \<Rightarrow>
          (case migrate_loop stored False of
             (presets, migrated) \<Rightarrow>
               if migrated
               then (case dump_presets presets fs of
                       Some fs' \<Rightarrow> (presets, fs')
                     | None \<Rightarrow> (presets, fs))
               else (presets, fs)))"

definition save_presets :: "presets \<Rightarrow> filesystem \<Rightarrow> bool \<times> filesystem" where
  "save_presets presets fs =
     (case dump_presets presets fs of
        Some fs' \<Rightarrow> (True, fs')
      | None \<Rightarrow> (False, fs))"

subsection \<open>Messages, sessions and replies\<close>

text \<open>
  The part of a Telegram update that the handlers read: the sender, the text (absent on a
  media message), the photo sizes (empty when the message is no photo; the last one is the
  largest) and the attached document. Files are named by their file identifier.
\<close>

record user =
  user_id :: nat
  first_name :: string
  username :: "string option"

record document =
  file_id :: string
  mime_type :: string

record message =
  from_user :: user
  message_text :: "string option"
  photo :: "string list"
  document :: "document option"

text \<open>
  The per-user dictionary \<^verbatim>\<open>user_data[user_id]\<close>: one optional field for each key the
  program ever stores. \<open>None\<close> is an absent key, so the empty dictionary is the session
  with every field \<open>None\<close>.
\<close>

record user_info =
  info_id :: nat
  info_first_name :: string
  info_username :: string

record session =
  spacing :: "spacing option"
  current_spacing_key :: "string option"
  editing_preset :: "string option"
  last_preset :: "string option"
  user_info :: "user_info option"
  first_photo :: "string option"
  first_is_document :: "bool option"
  first_mime_type :: "string option"
  second_photo :: "string option"
  second_is_document :: "bool option"
  second_mime_type :: "string option"

definition empty_session :: session where
  "empty_session =
     \<lparr>spacing = None, current_spacing_key = None, editing_preset = None, last_preset = None,
      user_info = None, first_photo = None, first_is_document = None, first_mime_type = None,
      second_photo = None, second_is_document = None, second_mime_type = None\<rparr>"

text \<open>The conversation states of line 18, and \<^verbatim>\<open>ConversationHandler.END\<close>.\<close>

datatype conv_state =
    FIRST_IMAGE | SECOND_IMAGE | NAME | SETTINGS | CUSTOM_SPACING | SPACING_INPUT
  | PRESETS | SAVE_PRESET | LOAD_PRESET | PRESET_NAME | DELETE_PRESET | EDIT_PRESET
  | END

text \<open>The exceptions that the modelled code can raise.\<close>

datatype py_error =
    KeyError string
  | UserKeyError nat
  | AttributeError
  | TypeError
  | DownloadError
  | DecodeError
  | SendError

datatype image_mode = RGBA | RGB

datatype image_format = PNG | JPEG nat

text \<open>
  The composed picture, by what determines it: the mode both images were converted to,
  the size of the main image, where the resized reference is pasted, the label and where
  it is drawn. The encoded output adds the format and the file name.
\<close>

record picture =
  mode :: image_mode
  canvas :: "int \<times> int"
  ref_at :: "int \<times> int"
  label :: string
  label_at :: "int \<times> int"

record output_file =
  content :: picture
  format :: image_format
  filename :: string

text \<open>
  What a handler sends. Each constructor is one of the program's messages, carrying the
  values its text is rendered from; the rendering itself (f-strings, keyboards) is not
  modelled.
\<close>

datatype reply =
    SettingsText spacing
  | PositionMenuText spacing
  | EnterValueText string int
  | InvalidNumberText string
  | SendImageText
  | SendReferenceText spacing
  | SendLabelText
  | ProcessingText
  | MergedDocument output_file
  | GroupDocument output_file user_info string
  | GroupFailedText
  | SuccessText
  | ErrorText py_error
  | TryAgainText
  | CancelledText
  | PresetNameEmptyText
  | PresetSavedText string
  | PresetSaveErrorText
  | NoSpacingText
  | PresetLoadedText string
  | PresetsMenuText "(string \<times> int \<times> int) list" bool
  | PresetNotFoundText
  | PresetUnidentifiedText

text \<open>
  The state the handlers act on: the global \<^verbatim>\<open>user_data\<close>, the file system and the
  messages sent so far, oldest first.
\<close>

record world =
  user_data :: "nat \<rightharpoonup> session"
  fs :: filesystem
  sent :: "reply list"

definition send :: "reply \<Rightarrow> world \<Rightarrow> world" where
  "send r w = w\<lparr>sent := sent w @ [r]\<rparr>"

text \<open>
  A handler returns the next conversation state and the new world, or raises: an
  exception that leaves a handler is \<open>Inl\<close>.
\<close>

type_synonym result = "py_error + conv_state \<times> world"

text \<open>
  What the outside world answers to \<^verbatim>\<open>process_name\<close>: the download of a file
  (\<open>None\<close> when \<^verbatim>\<open>get_file\<close> or \<^verbatim>\<open>download_to_memory\<close> raises), the size of the
  image that \<^verbatim>\<open>Image.open(...).convert(...)\<close> decodes from the bytes (\<open>None\<close> when it
  raises), the bounding box \<^verbatim>\<open>font.getbbox(name)\<close> of the font that the font lookup
  ends with, and whether the two deliveries succeed.
\<close>

record env =
  download :: "string \<Rightarrow> nat list option"
  decode :: "nat list \<Rightarrow> (int \<times> int) option"
  getbbox :: "string \<Rightarrow> int \<times> int \<times> int \<times> int"
  reply_document_ok :: bool
  send_group_ok :: bool

subsection \<open>Settings handlers\<close>

text \<open>
  The opening of \<^verbatim>\<open>settings\<close>, \<^verbatim>\<open>custom_spacing_menu\<close>,
  \<^verbatim>\<open>handle_direction_selection\<close> and \<^verbatim>\<open>first_image\<close>: the session is created
  if the user has none, and receives a copy of \<^verbatim>\<open>DEFAULT_SPACING\<close> if it has no
  spacing. The result is the session as stored and its spacing.
\<close>

definition ensure_spacing :: "nat \<Rightarrow> (nat \<rightharpoonup> session) \<Rightarrow> session \<times> spacing" where
  "ensure_spacing uid ud =
     (let s = (case ud uid of None \<Rightarrow> empty_session | Some s \<Rightarrow> s);
          sp = (case spacing s of None \<Rightarrow> DEFAULT_SPACING | Some sp \<Rightarrow> sp)
      in (s\<lparr>spacing := Some sp\<rparr>, sp))"

text \<open>
  The menus read \<^verbatim>\<open>spacing['image_x']\<close>, \<^verbatim>\<open>spacing['image_y']\<close>,
  \<^verbatim>\<open>spacing['text_x']\<close> and \<^verbatim>\<open>spacing['text_y']\<close>, in this order, to describe the
  position; the first absent key raises \<^verbatim>\<open>KeyError\<close>.
\<close>

fun first_missing :: "string list \<Rightarrow> spacing \<Rightarrow> string option" where
  "first_missing [] sp = None"
| "first_missing (k # ks) sp = (if has_key sp k then first_missing ks sp else Some k)"

definition settings :: "message \<Rightarrow> world \<Rightarrow> result" where
  "settings m w =
     (let uid = user_id (from_user m) in
      case ensure_spacing uid (user_data w) of
        (s, sp) \<Rightarrow>
          (case first_missing SPACING_KEYS sp of
             Some k \<Rightarrow> Inl (KeyError k)
           | None \<Rightarrow>
               Inr (SETTINGS, send (SettingsText sp) (w\<lparr>user_data := (user_data w)(uid \<mapsto> s)\<rparr>))))"

definition custom_spacing_menu :: "message \<Rightarrow> world \<Rightarrow> result" where
  "custom_spacing_menu m w =
     (let uid = user_id (from_user m) in
      case ensure_spacing uid (user_data w) of
        (s, sp) \<Rightarrow>
          (case first_missing SPACING_KEYS sp of
             Some k \<Rightarrow> Inl (KeyError k)
           | None \<Rightarrow>
               Inr (CUSTOM_SPACING,
                    send (PositionMenuText sp) (w\<lparr>user_data := (user_data w)(uid \<mapsto> s)\<rparr>))))"

text \<open>Lines 332-368: the offset that the pressed button names.\<close>

definition position_key :: "string \<Rightarrow> string option" where
  "position_key t =
     (if prefix IMAGE_X_TEXT t then Some ''image_x''
      else if prefix IMAGE_Y_TEXT t then Some ''image_y''
      else if prefix TEXT_X_TEXT t then Some ''text_x''
      else if prefix TEXT_Y_TEXT t then Some ''text_y''
      else None)"

definition handle_direction_selection :: "message \<Rightarrow> world \<Rightarrow> result" where
  "handle_direction_selection m w =
     (if message_text m = Some BACK_TEXT then settings m w
      else
        let uid = user_id (from_user m) in
        case ensure_spacing uid (user_data w) of
          (s, sp) \<Rightarrow>
            (case message_text m of
               None \<Rightarrow> Inl AttributeError
             | Some t \<Rightarrow>
                 (case position_key t of
                    None \<Rightarrow> custom_spacing_menu m (w\<lparr>user_data := (user_data w)(uid \<mapsto> s)\<rparr>)
                  | Some k \<Rightarrow>
                      (case map_of sp k of
                         None \<Rightarrow> Inl (KeyError k)
                       | Some current_value \<Rightarrow>
                           Inr (SPACING_INPUT,
                                send (EnterValueText k current_value)
                                  (w\<lparr>user_data :=
                                       (user_data w)(uid \<mapsto> s\<lparr>current_spacing_key := Some k\<rparr>)\<rparr>))))))"

text \<open>
  \<^verbatim>\<open>handle_spacing_input\<close> (lines 391-428). A user without a session receives one
  holding the default spacing; the key defaults to \<^verbatim>\<open>'image_x'\<close>
  (\<^verbatim>\<open>.get('current_spacing_key', 'image_x')\<close>); \<^verbatim>\<open>int(text.strip())\<close> either gives
  the value to store or raises the \<^verbatim>\<open>ValueError\<close> that the handler answers with a new
  prompt.
\<close>

definition handle_spacing_input :: "message \<Rightarrow> world \<Rightarrow> result" where
  "handle_spacing_input m w =
     (if message_text m = Some BACK_TEXT then custom_spacing_menu m w
      else
        let uid = user_id (from_user m);
            s = (case user_data w uid of
                   None \<Rightarrow> empty_session\<lparr>spacing := Some DEFAULT_SPACING\<rparr>
                 | Some s \<Rightarrow> s);
            w1 = w\<lparr>user_data := (user_data w)(uid \<mapsto> s)\<rparr>;
            current_key = (case current_spacing_key s of None \<Rightarrow> ''image_x'' | Some k \<Rightarrow> k)
        in case message_text m of
             None \<Rightarrow> Inl AttributeError
           | Some t \<Rightarrow>
               (case py_int (py_strip t) of
                  None \<Rightarrow> Inr (SPACING_INPUT, send (InvalidNumberText current_key) w1)
                | Some spacing_value \<Rightarrow>
                    (case spacing s of
                       None \<Rightarrow> Inl (KeyError ''spacing'')
                     | Some sp \<Rightarrow>
                         custom_spacing_menu m
                           (w1\<lparr>user_data :=
                                 (user_data w)(uid \<mapsto>
                                   s\<lparr>spacing := Some (AList.update current_key spacing_value sp)\<rparr>)\<rparr>))))"

subsection \<open>Job handlers\<close>

text \<open>
  \<^verbatim>\<open>cancel\<close> (lines 1141-1163) and the clean-up of \<^verbatim>\<open>process_name\<close>
  (lines 1103-1108) replace the session by a dictionary that holds the spacing only.
\<close>

definition settings_data :: "session \<Rightarrow> session" where
  "settings_data s = empty_session\<lparr>spacing := spacing s\<rparr>"

definition cancel :: "message \<Rightarrow> world \<Rightarrow> result" where
  "cancel m w =
     (let uid = user_id (from_user m);
          ud = (case user_data w uid of
                  None \<Rightarrow> user_data w
                | Some s \<Rightarrow> (user_data w)(uid \<mapsto> settings_data s))
      in Inr (END, send CancelledText (w\<lparr>user_data := ud\<rparr>)))"

text \<open>
  The branch of \<^verbatim>\<open>first_image\<close> and \<^verbatim>\<open>second_image\<close> on the kind of the message: a
  photo, else a document whose MIME type starts with \<^verbatim>\<open>image/\<close>, else neither.
\<close>

datatype media = Photo string | ImageDocument string string | NoMedia

definition media_of :: "message \<Rightarrow> media" where
  "media_of m =
     (if photo m \<noteq> [] then Photo (last (photo m))
      else case document m of
             None \<Rightarrow> NoMedia
           | Some d \<Rightarrow>
               if prefix ''image/'' (mime_type d) then ImageDocument (file_id d) (mime_type d)
               else NoMedia)"

definition first_image :: "message \<Rightarrow> world \<Rightarrow> result" where
  "first_image m w =
     (let u = from_user m; uid = user_id u in
      case ensure_spacing uid (user_data w) of
        (s0, sp) \<Rightarrow>
          let s1 = s0\<lparr>user_info := Some \<lparr>info_id = uid, info_first_name = first_name u,
                     info_username = (case username u of
                                        None \<Rightarrow> ''Anonymous''
                                      | Some n \<Rightarrow> if n = [] then ''Anonymous'' else n)\<rparr>\<rparr>
          in case media_of m of
               NoMedia \<Rightarrow>
                 Inr (FIRST_IMAGE, send SendImageText (w\<lparr>user_data := (user_data w)(uid \<mapsto> s1)\<rparr>))
             | Photo f \<Rightarrow>
                 (case first_missing [''image_x'', ''image_y''] sp of
                    Some k \<Rightarrow> Inl (KeyError k)
                  | None \<Rightarrow>
                      Inr (SECOND_IMAGE,
                           send (SendReferenceText sp)
                             (w\<lparr>user_data := (user_data w)(uid \<mapsto>
                                  s1\<lparr>first_photo := Some f, first_is_document := Some False\<rparr>)\<rparr>)))
             | ImageDocument f mt \<Rightarrow>
                 (case first_missing [''image_x'', ''image_y''] sp of
                    Some k \<Rightarrow> Inl (KeyError k)
                  | None \<Rightarrow>
                      Inr (SECOND_IMAGE,
                           send (SendReferenceText sp)
                             (w\<lparr>user_data := (user_data w)(uid \<mapsto>
                                  s1\<lparr>first_photo := Some f, first_is_document := Some True,
                                     first_mime_type := Some mt\<rparr>)\<rparr>))))"

definition second_image :: "message \<Rightarrow> world \<Rightarrow> result" where
  "second_image m w =
     (if message_text m = Some CANCEL_TEXT then cancel m w
      else
        let uid = user_id (from_user m) in
        case media_of m of
          NoMedia \<Rightarrow> Inr (SECOND_IMAGE, send SendImageText w)
        | Photo f \<Rightarrow>
            (case user_data w uid of
               None \<Rightarrow> Inl (UserKeyError uid)
             | Some s \<Rightarrow>
                 Inr (NAME,
                      send SendLabelText
                        (w\<lparr>user_data := (user_data w)(uid \<mapsto>
                             s\<lparr>second_photo := Some f, second_is_document := Some False\<rparr>)\<rparr>)))
        | ImageDocument f mt \<Rightarrow>
            (case user_data w uid of
               None \<Rightarrow> Inl (UserKeyError uid)
             | Some s \<Rightarrow>
                 Inr (NAME,
                      send SendLabelText
                        (w\<lparr>user_data := (user_data w)(uid \<mapsto>
                             s\<lparr>second_photo := Some f, second_is_document := Some True,
                                second_mime_type := Some mt\<rparr>)\<rparr>))))"

subsection \<open>Composition\<close>

text \<open>
  Lines 940-945: transparency is kept when an image was received as a document whose
  recorded MIME type is \<^verbatim>\<open>image/png\<close>.
\<close>

definition has_transparency :: "session \<Rightarrow> bool" where
  "has_transparency s =
     ((first_is_document s = Some True \<and> first_mime_type s = Some ''image/png'')
      \<or> (second_is_document s = Some True \<and> second_mime_type s = Some ''image/png''))"

definition open_mode :: "bool \<Rightarrow> image_mode" where
  "open_mode transparent = (if transparent then RGBA else RGB)"

text \<open>Lines 1055-1066: the format and the name of the encoded output.\<close>

definition save_output :: "bool \<Rightarrow> picture \<Rightarrow> output_file" where
  "save_output transparent img =
     (if transparent
      then \<lparr>content = img, format = PNG, filename = ''merged_image.png''\<rparr>
      else \<lparr>content = img, format = JPEG 95, filename = ''merged_image.jpg''\<rparr>)"

text \<open>
  The body of the \<^verbatim>\<open>try\<close> block of \<^verbatim>\<open>process_name\<close> up to the encoded output
  (lines 921-1079), in the order of the source; \<open>Inl\<close> is the exception that ends it.
  The font lookup of lines 993-1034 never raises past its own handlers and ends with some
  font, whose measurements are \<open>getbbox env\<close>.
\<close>

definition compose :: "env \<Rightarrow> session \<Rightarrow> string option \<Rightarrow> py_error + output_file" where
  "compose e s name =
     (case first_photo s of
        None \<Rightarrow> Inl (KeyError ''first_photo'')
      | Some first \<Rightarrow>
     (case second_photo s of
        None \<Rightarrow> Inl (KeyError ''second_photo'')
      | Some second \<Rightarrow>
     (case download e first of
        None \<Rightarrow> Inl DownloadError
      | Some first_image_data \<Rightarrow>
     (case download e second of
        None \<Rightarrow> Inl DownloadError
      | Some second_image_data \<Rightarrow>
     (case decode e first_image_data of
        None \<Rightarrow> Inl DecodeError
      | Some (main_width, main_height) \<Rightarrow>
     (case decode e second_image_data of
        None \<Rightarrow> Inl DecodeError
      | Some ref_size \<Rightarrow>
     (case spacing s of
        None \<Rightarrow> Inl (KeyError ''spacing'')
      | Some sp \<Rightarrow>
     (case map_of sp ''image_x'' of
        None \<Rightarrow> Inl (KeyError ''image_x'')
      | Some image_x \<Rightarrow>
     (case map_of sp ''image_y'' of
        None \<Rightarrow> Inl (KeyError ''image_y'')
      | Some image_y \<Rightarrow>
     (case name of
        None \<Rightarrow> Inl TypeError
      | Some name \<Rightarrow>
     (case getbbox e name of
        (x0, y0, x1, y1) \<Rightarrow>
     (case map_of sp ''text_x'' of
        None \<Rightarrow> Inl (KeyError ''text_x'')
      | Some text_x \<Rightarrow>
     (case map_of sp ''text_y'' of
        None \<Rightarrow> Inl (KeyError ''text_y'')
      | Some text_y \<Rightarrow>
          Inr (save_output (has_transparency s)
                 \<lparr>mode = open_mode (has_transparency s),
                  canvas = (main_width, main_height),
                  ref_at = ref_anchor main_width main_height image_x image_y,
                  label = name,
                  label_at = (text_x_position main_width (x1 - x0) text_x,
                              text_y_position main_height (y1 - y0) text_y)\<rparr>))))))))))))))"

text \<open>
  \<^verbatim>\<open>process_name\<close> (lines 907-1139). Every exception of the \<^verbatim>\<open>try\<close> block ends in
  the handler of lines 1124-1139, which reports the error and ends the conversation; a
  failed delivery to the group is caught on its own (lines 1088-1101).
\<close>

definition report_error :: "py_error \<Rightarrow> world \<Rightarrow> result" where
  "report_error err w = Inr (END, send TryAgainText (send (ErrorText err) w))"

definition process_name :: "env \<Rightarrow> message \<Rightarrow> world \<Rightarrow> result" where
  "process_name e m w =
     (if message_text m = Some CANCEL_TEXT then cancel m w
      else
        let uid = user_id (from_user m);
            w1 = send ProcessingText w
        in case user_data w uid of
             None \<Rightarrow> report_error (UserKeyError uid) w1
           | Some s \<Rightarrow>
               (case compose e s (message_text m) of
                  Inl err \<Rightarrow> report_error err w1
                | Inr out \<Rightarrow>
                    if \<not> reply_document_ok e then report_error SendError w1
                    else
                      let w2 = send (MergedDocument out) w1 in
                      case user_info s of
                        None \<Rightarrow> report_error (KeyError ''user_info'') w2
                      | Some info \<Rightarrow>
                          let w3 = (if send_group_ok e
                                    then send (GroupDocument out info (label (content out))) w2
                                    else send GroupFailedText w2)
                          in Inr (END,
                                  send SuccessText
                                    (w3\<lparr>user_data := (user_data w)(uid \<mapsto> settings_data s)\<rparr>))))"

subsection \<open>Preset handlers\<close>

text \<open>
  Lines 668-677 of \<^verbatim>\<open>save_preset\<close>: the presets are loaded, the spacing is stored
  under the name in the loaded dictionary, and the dictionary is written back.
\<close>

definition store_preset :: "string \<Rightarrow> spacing \<Rightarrow> filesystem \<Rightarrow> bool \<times> filesystem" where
  "store_preset preset_name sp st =
     (case load_presets st of
        (presets, st1) \<Rightarrow> save_presets (AList.update preset_name [(''spacing'', sp)] presets) st1)"

text \<open>
  \<^verbatim>\<open>save_preset\<close> (lines 645-706): the name is the stripped message text; the current
  spacing of the session is stored under it.
\<close>

definition save_preset :: "message \<Rightarrow> world \<Rightarrow> result" where
  "save_preset m w =
     (if message_text m = Some BACK_TEXT then settings m w
      else
        case message_text m of
          None \<Rightarrow> Inl AttributeError
        | Some t \<Rightarrow>
            let uid = user_id (from_user m); preset_name = py_strip t in
            if preset_name = [] then Inr (PRESET_NAME, send PresetNameEmptyText w)
            else
              (case user_data w uid of
                 None \<Rightarrow> Inr (SETTINGS, send NoSpacingText w)
               | Some s \<Rightarrow>
                   (case spacing s of
                      None \<Rightarrow> Inr (SETTINGS, send NoSpacingText w)
                    | Some sp \<Rightarrow>
                        (case store_preset preset_name sp (fs w) of
                           (True, st2) \<Rightarrow>
                             Inr (SETTINGS,
                                  send (PresetSavedText preset_name)
                                    (w\<lparr>fs := st2,
                                       user_data := (user_data w)(uid \<mapsto>
                                         s\<lparr>editing_preset := None,
                                            last_preset := Some preset_name\<rparr>)\<rparr>))
                         | (False, st2) \<Rightarrow>
                             Inr (SETTINGS, send PresetSaveErrorText (w\<lparr>fs := st2\<rparr>))))))"

text \<open>
  The preset name that \<^verbatim>\<open>load_preset\<close> reads from a button text (line 1281):
  \<^verbatim>\<open>text.replace("Preset:", "").split(" (")[0].strip()\<close>.
\<close>

fun remove_all :: "string \<Rightarrow> string \<Rightarrow> string" where
  "remove_all old [] = []"
| "remove_all old (c # cs) =
     (if old \<noteq> [] \<and> prefix old (c # cs) then remove_all old (drop (length old - 1) cs)
      else c # remove_all old cs)"

fun before_first :: "string \<Rightarrow> string \<Rightarrow> string" where
  "before_first sep [] = []"
| "before_first sep (c # cs) = (if prefix sep (c # cs) then [] else c # before_first sep cs)"

definition button_preset_name :: "string \<Rightarrow> string" where
  "button_preset_name t = py_strip (before_first '' ('' (remove_all ''Preset:'' t))"

text \<open>
  \<^verbatim>\<open>load_preset\<close> (lines 1269-1337). The argument \<open>selected\<close> is
  \<^verbatim>\<open>context.user_data["selected_preset"]\<close> when \<^verbatim>\<open>command_handler\<close> has set it.
\<close>

definition load_preset :: "string option \<Rightarrow> message \<Rightarrow> world \<Rightarrow> result" where
  "load_preset selected m w =
     (let uid = user_id (from_user m);
          name = (case selected of
                    Some n \<Rightarrow> Inr (Some n)
                  | None \<Rightarrow>
                      (case message_text m of
                         None \<Rightarrow> Inl AttributeError
                       | Some t \<Rightarrow>
                           if prefix ''Preset:'' t then Inr (Some (button_preset_name t))
                           else Inr None))
      in case name of
           Inl err \<Rightarrow> Inl err
         | Inr None \<Rightarrow> Inr (SETTINGS, send PresetUnidentifiedText w)
         | Inr (Some preset_name) \<Rightarrow>
             (case load_presets (fs w) of
                (presets, fs1) \<Rightarrow>
                  (case map_of presets preset_name of
                     None \<Rightarrow> Inr (SETTINGS, send PresetNotFoundText (w\<lparr>fs := fs1\<rparr>))
                   | Some preset_data \<Rightarrow>
                       let s = (case user_data w uid of None \<Rightarrow> empty_session | Some s \<Rightarrow> s);
                           s' = (case map_of preset_data ''spacing'' of
                                   Some sp \<Rightarrow>
                                     s\<lparr>spacing := Some (fill_missing_keys sp),
                                       last_preset := Some preset_name\<rparr>
                                 | None \<Rightarrow> s\<lparr>spacing := Some DEFAULT_SPACING\<rparr>)
                       in Inr (SETTINGS,
                               send (PresetLoadedText preset_name)
                                 (w\<lparr>fs := fs1, user_data := (user_data w)(uid \<mapsto> s')\<rparr>)))))"

text \<open>
  \<^verbatim>\<open>presets_menu\<close> (lines 430-488). For each loaded preset that has a spacing, the four
  keys are filled in on the loaded copy and the button is labelled with the preset name and
  the description of \<^verbatim>\<open>spacing['image_x']\<close> and \<^verbatim>\<open>spacing['image_y']\<close>; the menu
  offers editing and deleting when the dictionary is not empty.
\<close>

fun preset_buttons :: "presets \<Rightarrow> py_error + (string \<times> int \<times> int) list" where
  "preset_buttons [] = Inr []"
| "preset_buttons ((preset_name, preset_data) # rest) =
     (case map_of preset_data ''spacing'' of
        None \<Rightarrow> preset_buttons rest
      | Some stored \<Rightarrow>
          (case map_of (fill_missing_keys stored) ''image_x'' of
             None \<Rightarrow> Inl (KeyError ''image_x'')
           | Some image_x \<Rightarrow>
               (case map_of (fill_missing_keys stored) ''image_y'' of
                  None \<Rightarrow> Inl (KeyError ''image_y'')
                | Some image_y \<Rightarrow>
                    (case preset_buttons rest of
                       Inl err \<Rightarrow> Inl err
                     | Inr buttons \<Rightarrow> Inr ((preset_name, image_x, image_y) # buttons)))))"

definition presets_menu :: "message \<Rightarrow> world \<Rightarrow> result" where
  "presets_menu m w =
     (case load_presets (fs w) of
        (presets, fs1) \<Rightarrow>
          (case preset_buttons presets of
             Inl err \<Rightarrow> Inl err
           | Inr buttons \<Rightarrow>
               Inr (PRESETS, send (PresetsMenuText buttons (presets \<noteq> [])) (w\<lparr>fs := fs1\<rparr>))))"

subsection \<open>Notions used in the statements\<close>

text \<open>
  What the migration loop does to one entry, and the entries it rewrites: those whose
  spacing passes the test of line 78.
\<close>

definition migrate_data :: "preset_data \<Rightarrow> preset_data" where
  "migrate_data preset_data =
     (case map_of preset_data ''spacing'' of
        None \<Rightarrow> preset_data
      | Some sp \<Rightarrow>
          if old_format sp
          then AList.update ''spacing''
                 [(''image_x'', 0), (''image_y'', 0), (''text_x'', 0), (''text_y'', 0)] preset_data
          else preset_data)"

definition legacy :: "preset_data \<Rightarrow> bool" where
  "legacy preset_data =
     (case map_of preset_data ''spacing'' of None \<Rightarrow> False | Some sp \<Rightarrow> old_format sp)"

text \<open>A four-key spacing record: its keys are the four of \<^verbatim>\<open>SPACING_KEYS\<close>, each once.\<close>

definition four_keys :: "spacing \<Rightarrow> bool" where
  "four_keys sp = (distinct (map fst sp) \<and> set (map fst sp) = set SPACING_KEYS)"

text \<open>
  A record of the legacy schema, in the words of the specification: some key of the old
  directional schema is present and none of the four current keys is.
\<close>

definition DIRECTIONAL_KEYS :: "string list" where
  "DIRECTIONAL_KEYS = [''top'', ''right'', ''bottom'', ''left'']"

definition legacy_schema :: "spacing \<Rightarrow> bool" where
  "legacy_schema sp =
     ((\<exists>k \<in> set DIRECTIONAL_KEYS. has_key sp k) \<and> (\<forall>k \<in> set SPACING_KEYS. \<not> has_key sp k))"

text \<open>The value of a key, 0 when the key is absent (\<^verbatim>\<open>spacing.get(k, 0)\<close>).\<close>

definition get_or_zero :: "spacing \<Rightarrow> string \<Rightarrow> int" where
  "get_or_zero sp k = (case map_of sp k of None \<Rightarrow> 0 | Some v \<Rightarrow> v)"

text \<open>
  "Delivered as a document with MIME type \<^verbatim>\<open>image/png\<close>", in the words of the
  specification: the message is no photo and carries a document of that type.
\<close>

definition png_document :: "message \<Rightarrow> bool" where
  "png_document m =
     (photo m = [] \<and> (case document m of None \<Rightarrow> False | Some d \<Rightarrow> mime_type d = ''image/png''))"

text \<open>
  Every spacing held by a session has the four keys. The handlers keep this: a spacing
  enters a session as a copy of \<^verbatim>\<open>DEFAULT_SPACING\<close> or as the filled-in spacing of a
  preset, and is changed by storing a value under a key.
\<close>

definition complete_sessions :: "(nat \<rightharpoonup> session) \<Rightarrow> bool" where
  "complete_sessions ud =
     (\<forall>uid s sp. ud uid = Some s \<longrightarrow> spacing s = Some sp \<longrightarrow> first_missing SPACING_KEYS sp = None)"

subsection \<open>Sample values\<close>

text \<open>A user, her messages and small worlds, for the concrete instances below.\<close>

definition alice :: user where
  "alice = \<lparr>user_id = 7, first_name = ''Alice'', username = Some ''alice''\<rparr>"

definition text_message :: "string \<Rightarrow> message" where
  "text_message t = \<lparr>from_user = alice, message_text = Some t, photo = [], document = None\<rparr>"

definition photo_message :: "string \<Rightarrow> message" where
  "photo_message f = \<lparr>from_user = alice, message_text = None, photo = [f], document = None\<rparr>"

definition document_message :: "string \<Rightarrow> string \<Rightarrow> message" where
  "document_message f mt =
     \<lparr>from_user = alice, message_text = None, photo = [],
      document = Some \<lparr>file_id = f, mime_type = mt\<rparr>\<rparr>"

definition disk :: "file_content option \<Rightarrow> filesystem" where
  "disk c = \<lparr>presets_file = c, writable = True, writes = 0\<rparr>"

definition world_of :: "session \<Rightarrow> world" where
  "world_of s = \<lparr>user_data = [7 \<mapsto> s], fs = disk None, sent = []\<rparr>"

text \<open>An outside world in which every download succeeds and every file decodes.\<close>

definition fair_env :: env where
  "fair_env =
     \<lparr>download = (\<lambda>f. Some []), decode = (\<lambda>b. Some (500, 500)),
      getbbox = (\<lambda>name. (0, 0, 100, 40)), reply_document_ok = True, send_group_ok = True\<rparr>"

text \<open>
  A session that still holds flags of an earlier reference image, the same session after
  Alice has sent a PNG document as main image and a photo as reference image, and the
  output composed from it.
\<close>

definition stale_session :: session where
  "stale_session =
     empty_session\<lparr>spacing := Some DEFAULT_SPACING, last_preset := Some ''Demo'',
                    second_is_document := Some True, second_mime_type := Some ''image/png''\<rparr>"

definition job_session :: session where
  "job_session =
     stale_session
       \<lparr>user_info := Some \<lparr>info_id = 7, info_first_name = ''Alice'', info_username = ''alice''\<rparr>,
        first_photo := Some ''f1'', first_is_document := Some True,
        first_mime_type := Some ''image/png'',
        second_photo := Some ''f2'', second_is_document := Some False\<rparr>"

definition job_output :: output_file where
  "job_output =
     \<lparr>content = \<lparr>mode = RGBA, canvas = (500, 500), ref_at = (50, 50), label = ''Hi'',
                 label_at = (200, 430)\<rparr>,
      format = PNG, filename = ''merged_image.png''\<rparr>"

text \<open>An outside world in which no file decodes as an image.\<close>

definition undecodable_env :: env where
  "undecodable_env = fair_env\<lparr>decode := (\<lambda>b. None)\<rparr>"

text \<open>The spacing of the specification's scenario D.\<close>

definition demo_spacing :: spacing where
  "demo_spacing = [(''image_x'', 20), (''image_y'', - 10), (''text_x'', 0), (''text_y'', 5)]"

section \<open>Properties\<close>

subsection \<open>Placement\<close>

lemma ref_position_raw_centered:
  "ref_position_raw main_dim offset = (main_dim - REF_IMAGE_SIZE) div 2 + offset"
  unfolding ref_position_raw_def ref_center_def REF_IMAGE_SIZE_def by presburger

lemma ref_position_spec: "ref_position main_dim offset = spec_anchor main_dim REF_IMAGE_SIZE offset"
  unfolding ref_position_def spec_anchor_def spec_clamp_def
  by (simp only: ref_position_raw_centered)

lemma ref_position_oversized: "main_dim < REF_IMAGE_SIZE \<Longrightarrow> ref_position main_dim offset = 0"
  unfolding ref_position_def by simp

text \<open>
  Claim C1. For all main image dimensions and image offsets, with the reference resized
  to the fixed side 400, the paste anchor of the reference is
  \<open>clamp((main_w - ref_side)/2 + image_x, 0, main_w - ref_side)\<close> on the X axis and the
  symmetric expression on the Y axis (the division being integer division), each axis
  clamped on its own; on an axis where the reference side exceeds the main dimension the
  anchor is 0.
\<close>

theorem ref_anchor_is_clamped_center:
  "ref_anchor main_w main_h image_x image_y =
     (spec_anchor main_w 400 image_x, spec_anchor main_h 400 image_y)
   \<and> (main_w < 400 \<longrightarrow> fst (ref_anchor main_w main_h image_x image_y) = 0)
   \<and> (main_h < 400 \<longrightarrow> snd (ref_anchor main_w main_h image_x image_y) = 0)"
proof -
  have side: "REF_IMAGE_SIZE = 400"
    by (simp add: REF_IMAGE_SIZE_def)
  have "ref_position main_w image_x = spec_anchor main_w 400 image_x"
    and "ref_position main_h image_y = spec_anchor main_h 400 image_y"
    using ref_position_spec side by simp_all
  moreover have "main_w < 400 \<longrightarrow> ref_position main_w image_x = 0"
    and "main_h < 400 \<longrightarrow> ref_position main_h image_y = 0"
    using ref_position_oversized side by simp_all
  ultimately show ?thesis
    by (simp add: ref_anchor_def)
qed

theorem ref_anchor_is_clamped_center_witness:
  "ref_anchor 500 300 (-1000) 7 = (0, 0)
   \<and> (spec_anchor 500 400 (-1000), spec_anchor 300 400 7) = (0, 0)
   \<and> (300::int) < 400 \<and> snd (ref_anchor 500 300 (-1000) 7) = 0"
  using ref_anchor_is_clamped_center [of 500 300 "-1000" 7]
  by (simp add: spec_anchor_def spec_clamp_def)

text \<open>
  Scenarios A and B of the specification: on a main image of 500 by 500 the reference is
  pasted at (50, 50) with offsets 0, and at X = 0 with the offset \<open>image_x = -1000\<close>.
\<close>

lemma scenario_centered: "ref_anchor 500 500 0 0 = (50, 50)"
  by (simp add: ref_anchor_def ref_position_def ref_position_raw_def ref_center_def
      REF_IMAGE_SIZE_def)

lemma scenario_clamped: "ref_position_raw 500 (- 1000) = - 950 \<and> ref_position 500 (- 1000) = 0"
  by (simp add: ref_position_def ref_position_raw_def ref_center_def REF_IMAGE_SIZE_def)

lemma text_x_position_lower: "10 \<le> text_x_position main_width text_width text_x"
  unfolding text_x_position_def by simp

lemma text_y_position_lower: "10 \<le> text_y_position main_height text_height text_y"
  unfolding text_y_position_def by simp

text \<open>
  Claim C2, as stated: the reference coordinates always lie in
  \<open>[0, main_dimension - reference_dimension]\<close> and the label coordinates always lie in
  \<open>[10, main_dimension - text_extent - 10]\<close>. It fails where the range is empty: a main
  image 300 wide receives the reference at X = 0, above the upper bound
  \<open>300 - 400 = -100\<close>; a label 200 wide on a main image 100 wide is drawn at X = 10, above
  the upper bound \<open>100 - 200 - 10 = -110\<close>.
\<close>

theorem placement_bounds_counterexample:
  "ref_position 300 0 = 0 \<and> \<not> ref_position 300 0 \<le> 300 - REF_IMAGE_SIZE
   \<and> text_x_position 100 200 0 = 10 \<and> \<not> text_x_position 100 200 0 \<le> 100 - 200 - 10"
  by (simp add: ref_position_def ref_position_raw_def ref_center_def REF_IMAGE_SIZE_def
      text_x_position_def)

text \<open>
  Claim C2, amended. The lower bound always holds: the reference coordinate is at least 0
  and the label coordinate at least 10. The upper bound holds whenever the range is not
  empty (the main dimension is at least the reference side, respectively at least the text
  extent plus 20); when the range is empty the coordinate is the lower bound itself, 0 for
  the reference and 10 for the label.
\<close>

theorem placement_bounds:
  "0 \<le> ref_position main_dim offset
   \<and> (REF_IMAGE_SIZE \<le> main_dim \<longrightarrow> ref_position main_dim offset \<le> main_dim - REF_IMAGE_SIZE)
   \<and> (main_dim < REF_IMAGE_SIZE \<longrightarrow> ref_position main_dim offset = 0)
   \<and> 10 \<le> text_x_position main_dim text_extent text_off
   \<and> 10 \<le> text_y_position main_dim text_extent text_off
   \<and> (text_extent + 20 \<le> main_dim \<longrightarrow>
        text_x_position main_dim text_extent text_off \<le> main_dim - text_extent - 10
      \<and> text_y_position main_dim text_extent text_off \<le> main_dim - text_extent - 10)
   \<and> (main_dim < text_extent + 20 \<longrightarrow>
        text_x_position main_dim text_extent text_off = 10
      \<and> text_y_position main_dim text_extent text_off = 10)"
proof -
  have ref: "0 \<le> ref_position main_dim offset"
    "REF_IMAGE_SIZE \<le> main_dim \<longrightarrow> ref_position main_dim offset \<le> main_dim - REF_IMAGE_SIZE"
    "main_dim < REF_IMAGE_SIZE \<longrightarrow> ref_position main_dim offset = 0"
    unfolding ref_position_def by simp_all
  have tx: "text_extent + 20 \<le> main_dim \<longrightarrow>
        text_x_position main_dim text_extent text_off \<le> main_dim - text_extent - 10"
    "main_dim < text_extent + 20 \<longrightarrow> text_x_position main_dim text_extent text_off = 10"
    unfolding text_x_position_def by auto
  have ty: "text_extent + 20 \<le> main_dim \<longrightarrow>
        text_y_position main_dim text_extent text_off \<le> main_dim - text_extent - 10"
    "main_dim < text_extent + 20 \<longrightarrow> text_y_position main_dim text_extent text_off = 10"
    unfolding text_y_position_def by auto
  from ref tx ty text_x_position_lower text_y_position_lower show ?thesis
    by blast
qed

theorem placement_bounds_witness:
  "REF_IMAGE_SIZE \<le> 500 \<and> ref_position 500 1000 = 100 \<and> ref_position 500 1000 \<le> 500 - REF_IMAGE_SIZE
   \<and> (120::int) + 20 \<le> 500 \<and> text_x_position 500 120 900 = 370
   \<and> text_y_position 500 120 900 \<le> 500 - 120 - 10
   \<and> 300 < REF_IMAGE_SIZE \<and> ref_position 300 (-40) = 0
   \<and> (300::int) < 290 + 20 \<and> text_x_position 300 290 (-3) = 10
   \<and> text_y_position 300 290 (-3) = 10"
  using placement_bounds [of 500 1000 120 900] placement_bounds [of 300 "-40" 290 "-3"]
  by (simp add: ref_position_def ref_position_raw_def ref_center_def REF_IMAGE_SIZE_def
      text_x_position_def text_y_position_def)

subsection \<open>Entering an offset\<close>

lemma first_missing_update:
  "first_missing ks sp = None \<Longrightarrow> first_missing ks (AList.update k v sp) = None"
  by (induction ks) (auto simp: has_key_def update_conv' split: if_splits)

lemma ensure_spacing_present:
  "ud uid = Some s \<Longrightarrow> spacing s = Some sp \<Longrightarrow> ensure_spacing uid ud = (s, sp)"
  by (simp add: ensure_spacing_def)

lemma custom_spacing_menu_present:
  assumes "user_data w (user_id (from_user m)) = Some s" and "spacing s = Some sp"
    and "first_missing SPACING_KEYS sp = None"
  shows "custom_spacing_menu m w = Inr (CUSTOM_SPACING, send (PositionMenuText sp) w)"
proof -
  have "(user_data w)(user_id (from_user m) \<mapsto> s) = user_data w"
    using assms(1) by (simp add: fun_upd_idem)
  then show ?thesis
    using assms by (simp add: custom_spacing_menu_def ensure_spacing_present)
qed

lemma back_is_no_integer: "py_int (py_strip BACK_TEXT) = None"
  by code_simp

lemma default_spacing_complete: "first_missing SPACING_KEYS DEFAULT_SPACING = None"
  by (simp add: SPACING_KEYS_def DEFAULT_SPACING_def has_key_def)

text \<open>
  The Back button has its own row in the transition table: its text, which is no integer,
  is caught by the guard of line 396 and leads back to the position menu with nothing
  stored.
\<close>

lemma spacing_input_back:
  "py_int (py_strip BACK_TEXT) = None
   \<and> handle_spacing_input (text_message BACK_TEXT)
        (world_of (empty_session\<lparr>spacing := Some DEFAULT_SPACING,
                                   current_spacing_key := Some ''text_x''\<rparr>))
      = Inr (CUSTOM_SPACING,
             send (PositionMenuText DEFAULT_SPACING)
               (world_of (empty_session\<lparr>spacing := Some DEFAULT_SPACING,
                                          current_spacing_key := Some ''text_x''\<rparr>)))"
proof -
  let ?s = "empty_session\<lparr>spacing := Some DEFAULT_SPACING, current_spacing_key := Some ''text_x''\<rparr>"
  have "custom_spacing_menu (text_message BACK_TEXT) (world_of ?s)
      = Inr (CUSTOM_SPACING, send (PositionMenuText DEFAULT_SPACING) (world_of ?s))"
    by (rule custom_spacing_menu_present [where s = ?s])
       (simp_all add: world_of_def text_message_def alice_def default_spacing_complete)
  then show ?thesis
    by (simp add: handle_spacing_input_def text_message_def back_is_no_integer)
qed

text \<open>
  Claim C8. In the state awaiting a value, with a pending key \<open>k\<close> recorded in a session
  whose spacing holds the four keys, and for every text that is not the Back button's (the
  table's separate row): a text that parses as an integer \<open>v\<close> stores \<open>v\<close> under
  \<open>k\<close>, changes nothing else and shows the position menu (state \<open>CUSTOM_SPACING\<close>);
  a text that does not parse is answered by the prompt for a valid number, the state stays
  \<open>SPACING_INPUT\<close> and neither the sessions nor any spacing field change.
\<close>

theorem spacing_input_step:
  assumes "user_data w (user_id (from_user m)) = Some s"
    and "spacing s = Some sp"
    and "first_missing SPACING_KEYS sp = None"
    and "current_spacing_key s = Some k"
    and "message_text m = Some t"
    and "t \<noteq> BACK_TEXT"
  shows "(py_int (py_strip t) = Some v \<longrightarrow>
            handle_spacing_input m w =
              Inr (CUSTOM_SPACING,
                   send (PositionMenuText (AList.update k v sp))
                     (w\<lparr>user_data := (user_data w)(user_id (from_user m) \<mapsto>
                          s\<lparr>spacing := Some (AList.update k v sp)\<rparr>)\<rparr>))
            \<and> map_of (AList.update k v sp) k = Some v)
       \<and> (py_int (py_strip t) = None \<longrightarrow>
            handle_spacing_input m w = Inr (SPACING_INPUT, send (InvalidNumberText k) w))"
proof (intro conjI impI)
  let ?uid = "user_id (from_user m)"
  have same: "(user_data w)(?uid \<mapsto> s) = user_data w"
    using assms(1) by (simp add: fun_upd_idem)
  show "map_of (AList.update k v sp) k = Some v"
    by (simp add: update_conv')
  {
    assume parsed: "py_int (py_strip t) = Some v"
    let ?s' = "s\<lparr>spacing := Some (AList.update k v sp)\<rparr>"
    let ?w' = "w\<lparr>user_data := (user_data w)(?uid \<mapsto> ?s')\<rparr>"
    have menu: "custom_spacing_menu m ?w'
        = Inr (CUSTOM_SPACING, send (PositionMenuText (AList.update k v sp)) ?w')"
      by (rule custom_spacing_menu_present [where s = ?s'])
         (simp_all add: first_missing_update assms(3))
    show "handle_spacing_input m w
        = Inr (CUSTOM_SPACING, send (PositionMenuText (AList.update k v sp)) ?w')"
      using assms parsed menu by (simp add: handle_spacing_input_def Let_def same)
  }
  {
    assume "py_int (py_strip t) = None"
    then show "handle_spacing_input m w = Inr (SPACING_INPUT, send (InvalidNumberText k) w)"
      using assms by (simp add: handle_spacing_input_def Let_def same)
  }
qed

lemma sample_integer_text: "py_int (py_strip ''-25'') = Some (- 25)"
  by code_simp

lemma sample_other_text: "py_int (py_strip ''abc'') = None"
  by code_simp

text \<open>
  Digits and whitespace beyond ASCII are read as Python reads them: the Arabic-Indic digit
  three between no-break spaces is the integer 3, and a name made of a no-break space
  alone is empty once stripped.
\<close>

lemma sample_arabic_indic_text:
  "py_int (py_strip [CHR 0xC2, CHR 0xA0, CHR 0xD9, CHR 0xA3, CHR 0xC2, CHR 0xA0]) = Some 3"
  by code_simp

lemma sample_blank_name: "py_strip [CHR 0xC2, CHR 0xA0] = []"
  by code_simp

theorem spacing_input_step_witness:
  "handle_spacing_input (text_message ''-25'')
      (world_of (empty_session\<lparr>spacing := Some DEFAULT_SPACING,
                                 current_spacing_key := Some ''text_x''\<rparr>))
    = Inr (CUSTOM_SPACING,
           send (PositionMenuText
                   [(''image_x'', 0), (''image_y'', 0), (''text_x'', - 25), (''text_y'', 0)])
             (world_of (empty_session
                \<lparr>spacing := Some [(''image_x'', 0), (''image_y'', 0), (''text_x'', - 25),
                                   (''text_y'', 0)],
                 current_spacing_key := Some ''text_x''\<rparr>)))
   \<and> handle_spacing_input (text_message ''abc'')
        (world_of (empty_session\<lparr>spacing := Some DEFAULT_SPACING,
                                   current_spacing_key := Some ''text_x''\<rparr>))
      = Inr (SPACING_INPUT,
             send (InvalidNumberText ''text_x'')
               (world_of (empty_session\<lparr>spacing := Some DEFAULT_SPACING,
                                          current_spacing_key := Some ''text_x''\<rparr>)))
   \<and> handle_spacing_input
        (text_message [CHR 0xC2, CHR 0xA0, CHR 0xD9, CHR 0xA3, CHR 0xC2, CHR 0xA0])
        (world_of (empty_session\<lparr>spacing := Some DEFAULT_SPACING,
                                   current_spacing_key := Some ''text_x''\<rparr>))
      = Inr (CUSTOM_SPACING,
             send (PositionMenuText
                     [(''image_x'', 0), (''image_y'', 0), (''text_x'', 3), (''text_y'', 0)])
               (world_of (empty_session
                  \<lparr>spacing := Some [(''image_x'', 0), (''image_y'', 0), (''text_x'', 3),
                                     (''text_y'', 0)],
                   current_spacing_key := Some ''text_x''\<rparr>)))"
proof -
  let ?s = "empty_session\<lparr>spacing := Some DEFAULT_SPACING, current_spacing_key := Some ''text_x''\<rparr>"
  have session: "user_data (world_of ?s) (user_id (from_user (text_message t))) = Some ?s" for t
    by (simp add: world_of_def text_message_def alice_def)
  have fields: "spacing ?s = Some DEFAULT_SPACING" "current_spacing_key ?s = Some ''text_x''"
    by simp_all
  have texts: "message_text (text_message t) = Some t" for t
    by (simp add: text_message_def)
  have no_back: "''-25'' \<noteq> BACK_TEXT" "''abc'' \<noteq> BACK_TEXT"
    "[CHR 0xC2, CHR 0xA0, CHR 0xD9, CHR 0xA3, CHR 0xC2, CHR 0xA0] \<noteq> BACK_TEXT"
    by (simp_all add: BACK_TEXT_def)
  from spacing_input_step [OF session fields(1) default_spacing_complete fields(2) texts no_back(1),
      of "- 25"]
    spacing_input_step [OF session fields(1) default_spacing_complete fields(2) texts no_back(2),
      of 0]
    spacing_input_step [OF session fields(1) default_spacing_complete fields(2) texts no_back(3),
      of 3]
    sample_integer_text sample_other_text sample_arabic_indic_text
  show ?thesis
    by (simp add: world_of_def text_message_def alice_def DEFAULT_SPACING_def empty_session_def)
qed

text \<open>
  Claim C10. When the state awaiting a value is reached with no pending key in the
  session, a text that parses as an integer \<open>v\<close> is not rejected: \<open>v\<close> is stored under
  \<open>image_x\<close> and the position menu is shown. This holds for a user without a session,
  who receives the default spacing first, and for a session that holds a spacing with the
  four keys and no pending key.
\<close>

theorem spacing_input_default_key:
  assumes "message_text m = Some t" and "py_int (py_strip t) = Some v"
  shows "(user_data w (user_id (from_user m)) = None \<longrightarrow>
            handle_spacing_input m w =
              Inr (CUSTOM_SPACING,
                   send (PositionMenuText (AList.update ''image_x'' v DEFAULT_SPACING))
                     (w\<lparr>user_data := (user_data w)(user_id (from_user m) \<mapsto>
                          empty_session\<lparr>spacing :=
                            Some (AList.update ''image_x'' v DEFAULT_SPACING)\<rparr>)\<rparr>)))
       \<and> (user_data w (user_id (from_user m)) = Some s \<and> spacing s = Some sp
            \<and> first_missing SPACING_KEYS sp = None \<and> current_spacing_key s = None \<longrightarrow>
            handle_spacing_input m w =
              Inr (CUSTOM_SPACING,
                   send (PositionMenuText (AList.update ''image_x'' v sp))
                     (w\<lparr>user_data := (user_data w)(user_id (from_user m) \<mapsto>
                          s\<lparr>spacing := Some (AList.update ''image_x'' v sp)\<rparr>)\<rparr>)))
       \<and> map_of (AList.update ''image_x'' v sp) ''image_x'' = Some v"
proof (intro conjI impI)
  let ?uid = "user_id (from_user m)"
  have no_back: "message_text m \<noteq> Some BACK_TEXT"
    using assms back_is_no_integer by auto
  show "map_of (AList.update ''image_x'' v sp) ''image_x'' = Some v"
    by (simp add: update_conv')
  {
    assume absent: "user_data w ?uid = None"
    let ?sp' = "AList.update ''image_x'' v DEFAULT_SPACING"
    let ?s' = "empty_session\<lparr>spacing := Some ?sp'\<rparr>"
    let ?w' = "w\<lparr>user_data := (user_data w)(?uid \<mapsto> ?s')\<rparr>"
    have menu: "custom_spacing_menu m ?w' = Inr (CUSTOM_SPACING, send (PositionMenuText ?sp') ?w')"
      by (rule custom_spacing_menu_present [where s = ?s'])
         (simp_all add: first_missing_update default_spacing_complete)
    show "handle_spacing_input m w = Inr (CUSTOM_SPACING, send (PositionMenuText ?sp') ?w')"
      using assms absent no_back menu
      by (simp add: handle_spacing_input_def Let_def empty_session_def)
  }
  {
    assume present: "user_data w ?uid = Some s \<and> spacing s = Some sp
            \<and> first_missing SPACING_KEYS sp = None \<and> current_spacing_key s = None"
    let ?sp' = "AList.update ''image_x'' v sp"
    let ?s' = "s\<lparr>spacing := Some ?sp'\<rparr>"
    let ?w' = "w\<lparr>user_data := (user_data w)(?uid \<mapsto> ?s')\<rparr>"
    have menu: "custom_spacing_menu m ?w' = Inr (CUSTOM_SPACING, send (PositionMenuText ?sp') ?w')"
      by (rule custom_spacing_menu_present [where s = ?s'])
         (simp_all add: first_missing_update present)
    show "handle_spacing_input m w = Inr (CUSTOM_SPACING, send (PositionMenuText ?sp') ?w')"
      using assms present no_back menu
      by (simp add: handle_spacing_input_def Let_def)
  }
qed

theorem spacing_input_default_key_witness:
  "handle_spacing_input (text_message ''-25'') \<lparr>user_data = Map.empty, fs = disk None, sent = []\<rparr>
     = Inr (CUSTOM_SPACING,
            send (PositionMenuText
                    [(''image_x'', - 25), (''image_y'', 0), (''text_x'', 0), (''text_y'', 0)])
              (world_of (empty_session
                 \<lparr>spacing := Some [(''image_x'', - 25), (''image_y'', 0), (''text_x'', 0),
                                    (''text_y'', 0)]\<rparr>)))
   \<and> handle_spacing_input (text_message ''-25'')
        (world_of (empty_session\<lparr>spacing := Some [(''image_y'', 4), (''image_x'', 1),
                                                     (''text_x'', 0), (''text_y'', 0)]\<rparr>))
     = Inr (CUSTOM_SPACING,
            send (PositionMenuText
                    [(''image_y'', 4), (''image_x'', - 25), (''text_x'', 0), (''text_y'', 0)])
              (world_of (empty_session
                 \<lparr>spacing := Some [(''image_y'', 4), (''image_x'', - 25), (''text_x'', 0),
                                    (''text_y'', 0)]\<rparr>)))"
proof -
  have texts: "message_text (text_message ''-25'') = Some ''-25''"
    by (simp add: text_message_def)
  let ?sp = "[(''image_y'', 4), (''image_x'', 1), (''text_x'', 0), (''text_y'', 0)] :: spacing"
  from spacing_input_default_key [OF texts sample_integer_text,
      of "\<lparr>user_data = Map.empty, fs = disk None, sent = []\<rparr>" empty_session "[]"]
    spacing_input_default_key [OF texts sample_integer_text,
      of "world_of (empty_session\<lparr>spacing := Some ?sp\<rparr>)" "empty_session\<lparr>spacing := Some ?sp\<rparr>" ?sp]
  show ?thesis
    by (simp add: world_of_def text_message_def alice_def DEFAULT_SPACING_def SPACING_KEYS_def
        has_key_def empty_session_def)
qed

subsection \<open>Transparency, mode and format\<close>

lemma compose_mode_format:
  assumes "compose e s name = Inr out"
  shows "mode (content out) = open_mode (has_transparency s)"
    and "format out = (if has_transparency s then PNG else JPEG 95)"
  using assms
  by (auto simp: compose_def save_output_def
      split: option.splits prod.splits if_splits)

lemma first_image_flags:
  assumes "first_image m w = Inr (SECOND_IMAGE, w1)"
    and "user_data w1 (user_id (from_user m)) = Some s"
  shows "(first_is_document s = Some True \<and> first_mime_type s = Some ''image/png'') = png_document m"
  using assms
  by (auto simp: first_image_def media_of_def png_document_def send_def Let_def
      split: prod.splits option.splits media.splits if_splits)

lemma second_image_flags:
  assumes "second_image m w = Inr (NAME, w2)"
    and "user_data w2 (user_id (from_user m)) = Some s"
  shows "(second_is_document s = Some True \<and> second_mime_type s = Some ''image/png'') = png_document m"
    and "\<exists>s1. user_data w (user_id (from_user m)) = Some s1
            \<and> first_is_document s = first_is_document s1
            \<and> first_mime_type s = first_mime_type s1"
  using assms
  by (auto simp: second_image_def cancel_def media_of_def png_document_def send_def Let_def
      split: prod.splits option.splits media.splits if_splits)

text \<open>
  Claim C3. For a job whose main image arrived in the message \<open>m1\<close> and whose reference
  image arrived in the message \<open>m2\<close>, transparency is preserved if and only if at least
  one of the two was delivered as a document with MIME type \<^verbatim>\<open>image/png\<close>; when it is,
  both images are opened as RGBA and the output is a PNG, and when it is not, both are
  opened as RGB and the output is a JPEG of quality 95. This holds whatever the session
  held before the two images arrived.
\<close>

theorem transparency_decides_mode_and_format:
  assumes "first_image m1 w = Inr (SECOND_IMAGE, w1)"
    and "second_image m2 w1 = Inr (NAME, w2)"
    and "user_id (from_user m2) = user_id (from_user m1)"
    and "user_data w2 (user_id (from_user m1)) = Some s"
    and "compose e s name = Inr out"
  shows "has_transparency s = (png_document m1 \<or> png_document m2)
       \<and> (has_transparency s \<longrightarrow> mode (content out) = RGBA \<and> format out = PNG)
       \<and> (\<not> has_transparency s \<longrightarrow> mode (content out) = RGB \<and> format out = JPEG 95)"
proof -
  have second: "(second_is_document s = Some True \<and> second_mime_type s = Some ''image/png'')
      = png_document m2"
    using second_image_flags(1) [OF assms(2)] assms(3,4) by simp
  obtain s1 where s1: "user_data w1 (user_id (from_user m1)) = Some s1"
    "first_is_document s = first_is_document s1" "first_mime_type s = first_mime_type s1"
    using second_image_flags(2) [OF assms(2)] assms(3,4) by auto
  have first: "(first_is_document s = Some True \<and> first_mime_type s = Some ''image/png'')
      = png_document m1"
    using first_image_flags [OF assms(1) s1(1)] s1(2,3) by simp
  have "has_transparency s = (png_document m1 \<or> png_document m2)"
    unfolding has_transparency_def using first second by simp
  then show ?thesis
    using compose_mode_format [OF assms(5)] by (simp add: open_mode_def)
qed
lemma sample_first_image:
  "first_image (document_message ''f1'' ''image/png'') (world_of stale_session)
     = Inr (SECOND_IMAGE,
            send (SendReferenceText DEFAULT_SPACING)
              (world_of (stale_session
                 \<lparr>user_info := Some \<lparr>info_id = 7, info_first_name = ''Alice'',
                                      info_username = ''alice''\<rparr>,
                  first_photo := Some ''f1'', first_is_document := Some True,
                  first_mime_type := Some ''image/png''\<rparr>)))"
  by (simp add: first_image_def ensure_spacing_def media_of_def document_message_def alice_def
      world_of_def stale_session_def empty_session_def DEFAULT_SPACING_def has_key_def send_def
      Let_def)

lemma sample_second_image:
  "second_image (photo_message ''f2'')
     (send (SendReferenceText DEFAULT_SPACING)
        (world_of (stale_session
           \<lparr>user_info := Some \<lparr>info_id = 7, info_first_name = ''Alice'',
                                info_username = ''alice''\<rparr>,
            first_photo := Some ''f1'', first_is_document := Some True,
            first_mime_type := Some ''image/png''\<rparr>)))
     = Inr (NAME,
            send SendLabelText (send (SendReferenceText DEFAULT_SPACING) (world_of job_session)))"
  by (simp add: second_image_def media_of_def photo_message_def alice_def world_of_def
      job_session_def stale_session_def empty_session_def send_def Let_def)

lemma sample_compose: "compose fair_env job_session (Some ''Hi'') = Inr job_output"
  by (simp add: compose_def fair_env_def job_session_def stale_session_def empty_session_def
      DEFAULT_SPACING_def has_transparency_def open_mode_def save_output_def job_output_def
      ref_anchor_def ref_position_def ref_position_raw_def ref_center_def REF_IMAGE_SIZE_def
      text_x_position_def text_y_position_def)

theorem transparency_decides_mode_and_format_witness:
  "has_transparency job_session
   \<and> png_document (document_message ''f1'' ''image/png'')
   \<and> \<not> png_document (photo_message ''f2'')
   \<and> mode (content job_output) = RGBA \<and> format job_output = PNG"
proof -
  have same_user: "user_id (from_user (photo_message ''f2''))
      = user_id (from_user (document_message ''f1'' ''image/png''))"
    by (simp add: photo_message_def document_message_def)
  have session: "user_data (send SendLabelText (send (SendReferenceText DEFAULT_SPACING)
        (world_of job_session))) (user_id (from_user (document_message ''f1'' ''image/png'')))
      = Some job_session"
    by (simp add: send_def world_of_def document_message_def alice_def)
  from transparency_decides_mode_and_format
    [OF sample_first_image sample_second_image same_user session sample_compose]
  show ?thesis
    by (simp add: png_document_def document_message_def photo_message_def)
qed

subsection \<open>The end of a job\<close>

lemma process_name_success:
  assumes "user_data w (user_id (from_user m)) = Some s"
    and "message_text m \<noteq> Some CANCEL_TEXT"
    and "compose e s (message_text m) = Inr out"
    and "reply_document_ok e"
    and "user_info s = Some info"
  shows "process_name e m w =
           Inr (END,
                w\<lparr>user_data := (user_data w)(user_id (from_user m) \<mapsto>
                     empty_session\<lparr>spacing := spacing s\<rparr>),
                  sent := sent w @
                    [ProcessingText, MergedDocument out,
                     if send_group_ok e then GroupDocument out info (label (content out))
                     else GroupFailedText,
                     SuccessText]\<rparr>)"
  using assms by (simp add: process_name_def Let_def send_def settings_data_def)

lemma cancel_present:
  assumes "user_data w (user_id (from_user m)) = Some s"
  shows "cancel m w =
           Inr (END,
                w\<lparr>user_data := (user_data w)(user_id (from_user m) \<mapsto>
                     empty_session\<lparr>spacing := spacing s\<rparr>),
                  sent := sent w @ [CancelledText]\<rparr>)"
  using assms by (simp add: cancel_def Let_def send_def settings_data_def)

text \<open>
  Claim C7, as stated: after a cancellation the session retains the spacing and the name
  of the last preset. It fails on a session that holds the last preset \<^verbatim>\<open>Demo\<close>: after
  \<^verbatim>\<open>cancel\<close> the session holds the spacing and no last preset.
\<close>

theorem reset_drops_last_preset_counterexample:
  "user_data (world_of stale_session) 7 = Some stale_session
   \<and> last_preset stale_session = Some ''Demo''
   \<and> cancel (text_message CANCEL_TEXT) (world_of stale_session)
      = Inr (END, send CancelledText (world_of (empty_session\<lparr>spacing := Some DEFAULT_SPACING\<rparr>)))
   \<and> last_preset (empty_session\<lparr>spacing := Some DEFAULT_SPACING\<rparr>) = None"
  by (simp add: cancel_def settings_data_def world_of_def text_message_def alice_def
      stale_session_def empty_session_def send_def Let_def)

text \<open>
  Claim C7, amended. On explicit cancellation and on successful completion of a
  composition the session is replaced by one that retains exactly the spacing field: the
  name of the last preset is cleared together with the transient job fields (the pending
  media and their document and MIME flags, the user information, the pending spacing key,
  the name of the preset being edited).
\<close>

theorem reset_keeps_spacing_only:
  assumes "user_data w (user_id (from_user m)) = Some s"
  shows "cancel m w =
           Inr (END,
                w\<lparr>user_data := (user_data w)(user_id (from_user m) \<mapsto>
                     empty_session\<lparr>spacing := spacing s\<rparr>),
                  sent := sent w @ [CancelledText]\<rparr>)
       \<and> (message_text m \<noteq> Some CANCEL_TEXT \<and> compose e s (message_text m) = Inr out
            \<and> reply_document_ok e \<and> user_info s = Some info \<longrightarrow>
          process_name e m w =
            Inr (END,
                 w\<lparr>user_data := (user_data w)(user_id (from_user m) \<mapsto>
                      empty_session\<lparr>spacing := spacing s\<rparr>),
                   sent := sent w @
                     [ProcessingText, MergedDocument out,
                      if send_group_ok e then GroupDocument out info (label (content out))
                      else GroupFailedText,
                      SuccessText]\<rparr>))
       \<and> last_preset (empty_session\<lparr>spacing := spacing s\<rparr>) = None
       \<and> empty_session\<lparr>spacing := spacing s\<rparr> =
           \<lparr>spacing = spacing s, current_spacing_key = None, editing_preset = None,
            last_preset = None, user_info = None, first_photo = None,
            first_is_document = None, first_mime_type = None, second_photo = None,
            second_is_document = None, second_mime_type = None\<rparr>"
  using cancel_present [OF assms] process_name_success [OF assms]
  by (simp add: empty_session_def)

theorem reset_keeps_spacing_only_witness:
  "cancel (text_message CANCEL_TEXT) (world_of job_session)
     = Inr (END, send CancelledText (world_of (empty_session\<lparr>spacing := Some DEFAULT_SPACING\<rparr>)))
   \<and> process_name fair_env (text_message ''Hi'') (world_of job_session)
     = Inr (END,
            send SuccessText
              (send (GroupDocument job_output
                       \<lparr>info_id = 7, info_first_name = ''Alice'', info_username = ''alice''\<rparr> ''Hi'')
                 (send (MergedDocument job_output)
                    (send ProcessingText
                       (world_of (empty_session\<lparr>spacing := Some DEFAULT_SPACING\<rparr>))))))"
proof -
  have session: "user_data (world_of job_session) (user_id (from_user (text_message t)))
      = Some job_session" for t
    by (simp add: world_of_def text_message_def alice_def)
  have composed: "compose fair_env job_session (message_text (text_message ''Hi'')) = Inr job_output"
    using sample_compose by (simp add: text_message_def)
  have job: "message_text (text_message ''Hi'') \<noteq> Some CANCEL_TEXT"
    "reply_document_ok fair_env"
    "user_info job_session
       = Some \<lparr>info_id = 7, info_first_name = ''Alice'', info_username = ''alice''\<rparr>"
    by (simp_all add: text_message_def CANCEL_TEXT_def fair_env_def job_session_def)
  from reset_keeps_spacing_only [OF session, of CANCEL_TEXT]
    reset_keeps_spacing_only [OF session, of "''Hi''" fair_env job_output]
    composed job
  show ?thesis
    by (simp add: world_of_def send_def text_message_def alice_def job_session_def
        stale_session_def empty_session_def fair_env_def job_output_def)
qed

subsection \<open>A failed decode\<close>

lemma compose_decode_failure:
  assumes "first_photo s = Some f1" and "second_photo s = Some f2"
    and "download e f1 = Some d1" and "download e f2 = Some d2"
    and "decode e d1 = None \<or> decode e d2 = None"
  shows "compose e s name = Inl DecodeError"
  using assms by (auto simp: compose_def split: option.splits)

text \<open>
  When one of the two downloaded files does not decode, \<^verbatim>\<open>process_name\<close> sends the
  processing notice, the error and the invitation to try again, no document, and ends
  the conversation; \<^verbatim>\<open>user_data\<close> is left as it was.
\<close>

lemma process_name_decode_failure:
  assumes "user_data w (user_id (from_user m)) = Some s"
    and "message_text m \<noteq> Some CANCEL_TEXT"
    and "first_photo s = Some f1" and "second_photo s = Some f2"
    and "download e f1 = Some d1" and "download e f2 = Some d2"
    and "decode e d1 = None \<or> decode e d2 = None"
  shows "process_name e m w =
           Inr (END, w\<lparr>sent := sent w @ [ProcessingText, ErrorText DecodeError, TryAgainText]\<rparr>)"
  using assms(1,2) compose_decode_failure [OF assms(3-7)]
  by (simp add: process_name_def report_error_def send_def Let_def)

text \<open>
  Claim C9: when decoding a supplied image fails, the job is aborted with no partial
  output, the job-scoped fields of the session are reset, the user is informed and the
  conversation returns to the idle state. The code aborts, informs and ends the
  conversation, but does not reset the session: in the sample job, with files that do not
  decode, the session after \<^verbatim>\<open>process_name\<close> is the session before it, pending media
  and their flags included.
\<close>

theorem decode_failure_keeps_job_fields:
  "process_name undecodable_env (text_message ''Hi'') (world_of job_session)
     = Inr (END,
            send TryAgainText (send (ErrorText DecodeError)
              (send ProcessingText (world_of job_session))))
   \<and> user_data (send TryAgainText (send (ErrorText DecodeError)
         (send ProcessingText (world_of job_session)))) 7 = Some job_session
   \<and> first_photo job_session = Some ''f1''
   \<and> first_is_document job_session = Some True
   \<and> first_mime_type job_session = Some ''image/png''
   \<and> second_photo job_session = Some ''f2''
   \<and> job_session \<noteq> empty_session\<lparr>spacing := spacing job_session\<rparr>"
proof -
  have "process_name undecodable_env (text_message ''Hi'') (world_of job_session)
     = Inr (END, (world_of job_session)\<lparr>sent := sent (world_of job_session)
          @ [ProcessingText, ErrorText DecodeError, TryAgainText]\<rparr>)"
    by (rule process_name_decode_failure [where s = job_session and ?f1.0 = "''f1''"
          and ?f2.0 = "''f2''" and ?d1.0 = "[]" and ?d2.0 = "[]"])
       (simp_all add: world_of_def text_message_def alice_def job_session_def CANCEL_TEXT_def
          undecodable_env_def fair_env_def)
  moreover have "job_session \<noteq> empty_session\<lparr>spacing := spacing job_session\<rparr>"
  proof
    assume "job_session = empty_session\<lparr>spacing := spacing job_session\<rparr>"
    then have "first_photo job_session = first_photo (empty_session\<lparr>spacing := spacing job_session\<rparr>)"
      by simp
    then show False
      by (simp add: job_session_def empty_session_def)
  qed
  ultimately show ?thesis
    by (simp add: send_def world_of_def job_session_def)
qed

subsection \<open>The preset file\<close>

lemma migrate_loop_characterised:
  "migrate_loop ps flag =
     (map (\<lambda>(n, pd). (n, migrate_data pd)) ps, flag \<or> (\<exists>(n, pd) \<in> set ps. legacy pd))"
  by (induction ps flag rule: migrate_loop.induct)
     (auto simp: migrate_data_def legacy_def split: option.splits)

lemma migrate_data_not_legacy: "\<not> legacy (migrate_data pd)"
  by (auto simp: legacy_def migrate_data_def old_format_def has_key_def update_conv'
      split: option.splits)

lemma migrate_data_unchanged: "\<not> legacy pd \<Longrightarrow> migrate_data pd = pd"
  by (auto simp: legacy_def migrate_data_def split: option.splits)

lemma migrate_loop_settled:
  assumes "\<forall>(n, pd) \<in> set ps. \<not> legacy pd"
  shows "migrate_loop ps False = (ps, False)"
proof -
  have "map (\<lambda>(n, pd). (n, migrate_data pd)) ps = ps"
    using assms by (intro map_idI) (auto simp: migrate_data_unchanged)
  then show ?thesis
    using assms by (auto simp: migrate_loop_characterised)
qed

lemma migrate_loop_result_settled:
  "migrate_loop ps flag = (ps', flag') \<Longrightarrow> \<forall>(n, pd) \<in> set ps'. \<not> legacy pd"
  by (auto simp: migrate_loop_characterised migrate_data_not_legacy)

lemma load_presets_settled:
  assumes "presets_file st = Some (Json ps)" and "\<forall>(n, pd) \<in> set ps. \<not> legacy pd"
  shows "load_presets st = (ps, st)"
  using assms by (simp add: load_presets_def migrate_loop_settled)

lemma load_presets_result:
  assumes "load_presets st = (ps, st')"
  shows "\<forall>(n, pd) \<in> set ps. \<not> legacy pd" and "writable st' = writable st"
  using assms
  by (auto simp: load_presets_def dump_presets_def migrate_loop_characterised
      migrate_data_not_legacy split: option.splits file_content.splits if_splits)

lemma set_update_entries: "set (AList.update k v al) \<subseteq> insert (k, v) (set al)"
  by (induction al) auto

text \<open>
  A record of the legacy schema passes the test of line 78 exactly when it has the key
  \<^verbatim>\<open>top\<close>.
\<close>

lemma old_format_of_legacy_schema: "legacy_schema sp \<Longrightarrow> old_format sp = has_key sp ''top''"
  by (simp add: legacy_schema_def old_format_def SPACING_KEYS_def)

lemma load_presets_migrates:
  assumes "presets_file st = Some (Json stored)" and "writable st"
    and "\<exists>(n, pd) \<in> set stored. legacy pd"
  shows "load_presets st =
           (map (\<lambda>(n, pd). (n, migrate_data pd)) stored,
            st\<lparr>presets_file := Some (Json (map (\<lambda>(n, pd). (n, migrate_data pd)) stored)),
               writes := writes st + 1\<rparr>)"
  using assms by (simp add: load_presets_def migrate_loop_characterised dump_presets_def)

lemma load_presets_returns:
  assumes "presets_file st = Some (Json stored)"
  shows "fst (load_presets st) = map (\<lambda>(n, pd). (n, migrate_data pd)) stored"
    and "\<not> writable st \<Longrightarrow> snd (load_presets st) = st"
  using assms
  by (auto simp: load_presets_def migrate_loop_characterised dump_presets_def
      split: option.splits if_splits)

text \<open>
  Claim C5, as stated: every record in the legacy schema (old directional keys present,
  none of the four current keys) is rewritten to the zero offsets by a load, and the
  document is written back. It fails on a record that holds the old keys \<^verbatim>\<open>right\<close> and
  \<^verbatim>\<open>bottom\<close> without \<^verbatim>\<open>top\<close>: the load returns it as stored and writes nothing.
\<close>

theorem legacy_without_top_counterexample:
  "legacy_schema [(''right'', 20), (''bottom'', 1)]
   \<and> load_presets (disk (Some (Json [(''R'', [(''spacing'', [(''right'', 20), (''bottom'', 1)])])])))
     = ([(''R'', [(''spacing'', [(''right'', 20), (''bottom'', 1)])])],
        \<lparr>presets_file = Some (Json [(''R'', [(''spacing'', [(''right'', 20), (''bottom'', 1)])])]),
         writable = True, writes = 0\<rparr>)"
  by (simp add: legacy_schema_def DIRECTIONAL_KEYS_def SPACING_KEYS_def has_key_def
      load_presets_def disk_def old_format_def)

text \<open>
  Claim C5, amended. The records that a load rewrites are those that pass the test of
  line 78: the old key \<^verbatim>\<open>top\<close> present and the current key \<^verbatim>\<open>image_x\<close> absent.
  When the stored document holds such a record, a load returns it with the spacing
  \<open>{image_x: 0, image_y: 0, text_x: 0, text_y: 0}\<close>. If the file can be written, the
  load writes the whole loaded document back, once, and a second load, with nothing saved
  or deleted in between, writes nothing and returns the same presets. If the file cannot
  be written, the load leaves it as it is. A record that does not pass the test, a record
  of the legacy schema without the key \<^verbatim>\<open>top\<close> included, is returned as stored.
\<close>

theorem legacy_record_migrated_once:
  assumes "presets_file st = Some (Json stored)"
    and "map_of stored n = Some pd" and "map_of pd ''spacing'' = Some sp" and "old_format sp"
  shows "map_of (fst (load_presets st)) n
           = Some (AList.update ''spacing''
                     [(''image_x'', 0), (''image_y'', 0), (''text_x'', 0), (''text_y'', 0)] pd)
       \<and> (case map_of (fst (load_presets st)) n of
             None \<Rightarrow> False
           | Some pd' \<Rightarrow>
               map_of pd' ''spacing''
                 = Some [(''image_x'', 0), (''image_y'', 0), (''text_x'', 0), (''text_y'', 0)])
       \<and> map fst (fst (load_presets st)) = map fst stored
       \<and> (writable st \<longrightarrow>
            (case load_presets st of
               (ps, st') \<Rightarrow>
                 presets_file st' = Some (Json ps)
               \<and> writes st' = writes st + 1
               \<and> load_presets st' = (ps, st')))
       \<and> (\<not> writable st \<longrightarrow> snd (load_presets st) = st)
       \<and> (map_of stored n' = Some other \<and> map_of other ''spacing'' = Some sp'
            \<and> \<not> old_format sp' \<longrightarrow>
          map_of (fst (load_presets st)) n' = Some other)"
proof -
  let ?ps = "map (\<lambda>(n, pd). (n, migrate_data pd)) stored"
  let ?st' = "st\<lparr>presets_file := Some (Json ?ps), writes := writes st + 1\<rparr>"
  have returned: "fst (load_presets st) = ?ps"
    using assms(1) by (rule load_presets_returns(1))
  have looked_up: "map_of ?ps k = map_option migrate_data (map_of stored k)" for k
    by (simp add: map_of_map)
  have found: "map_of ?ps n
      = Some (AList.update ''spacing''
                [(''image_x'', 0), (''image_y'', 0), (''text_x'', 0), (''text_y'', 0)] pd)"
  proof -
    have "migrate_data pd
        = AList.update ''spacing''
            [(''image_x'', 0), (''image_y'', 0), (''text_x'', 0), (''text_y'', 0)] pd"
      using assms(3,4) by (simp add: migrate_data_def)
    then show ?thesis
      using assms(2) looked_up [of n] by simp
  qed
  have names: "map fst ?ps = map fst stored"
    by (induction stored) auto
  have old: "legacy pd"
    using assms(3,4) by (simp add: legacy_def)
  moreover have "(n, pd) \<in> set stored"
    using assms(2) by (rule map_of_SomeD)
  ultimately have some: "\<exists>(n, pd) \<in> set stored. legacy pd"
    by auto
  have settled: "\<forall>(n, pd) \<in> set ?ps. \<not> legacy pd"
    by (auto simp: migrate_data_not_legacy)
  have written: "load_presets st = (?ps, ?st') \<and> load_presets ?st' = (?ps, ?st')"
    if "writable st"
  proof
    show "load_presets st = (?ps, ?st')"
      using some that by (intro load_presets_migrates assms(1))
    show "load_presets ?st' = (?ps, ?st')"
      using settled by (intro load_presets_settled) simp_all
  qed
  have kept: "map_of ?ps n' = Some other"
    if "map_of stored n' = Some other" "map_of other ''spacing'' = Some sp'" "\<not> old_format sp'"
  proof -
    have "migrate_data other = other"
      using that(2,3) by (simp add: migrate_data_def)
    then show ?thesis
      using that(1) looked_up [of n'] by simp
  qed
  show ?thesis
    using returned found names written kept load_presets_returns(2) [OF assms(1)]
    by (auto simp: update_conv')
qed

theorem legacy_record_migrated_once_witness:
  "load_presets
     (disk (Some (Json [(''Old'', [(''spacing'', [(''top'', 10), (''right'', 20)])]),
                        (''R'', [(''spacing'', [(''right'', 20), (''bottom'', 1)])])])))
   = ([(''Old'', [(''spacing'', [(''image_x'', 0), (''image_y'', 0), (''text_x'', 0),
                                  (''text_y'', 0)])]),
       (''R'', [(''spacing'', [(''right'', 20), (''bottom'', 1)])])],
      \<lparr>presets_file =
         Some (Json [(''Old'', [(''spacing'', [(''image_x'', 0), (''image_y'', 0),
                                                (''text_x'', 0), (''text_y'', 0)])]),
                     (''R'', [(''spacing'', [(''right'', 20), (''bottom'', 1)])])]),
       writable = True, writes = 1\<rparr>)
   \<and> load_presets
       \<lparr>presets_file =
          Some (Json [(''Old'', [(''spacing'', [(''image_x'', 0), (''image_y'', 0),
                                                 (''text_x'', 0), (''text_y'', 0)])]),
                      (''R'', [(''spacing'', [(''right'', 20), (''bottom'', 1)])])]),
        writable = True, writes = 1\<rparr>
     = ([(''Old'', [(''spacing'', [(''image_x'', 0), (''image_y'', 0), (''text_x'', 0),
                                    (''text_y'', 0)])]),
         (''R'', [(''spacing'', [(''right'', 20), (''bottom'', 1)])])],
        \<lparr>presets_file =
           Some (Json [(''Old'', [(''spacing'', [(''image_x'', 0), (''image_y'', 0),
                                                  (''text_x'', 0), (''text_y'', 0)])]),
                       (''R'', [(''spacing'', [(''right'', 20), (''bottom'', 1)])])]),
         writable = True, writes = 1\<rparr>)
   \<and> load_presets
       \<lparr>presets_file =
          Some (Json [(''Old'', [(''spacing'', [(''top'', 10), (''right'', 20)])]),
                      (''R'', [(''spacing'', [(''right'', 20), (''bottom'', 1)])])]),
        writable = False, writes = 0\<rparr>
     = ([(''Old'', [(''spacing'', [(''image_x'', 0), (''image_y'', 0), (''text_x'', 0),
                                    (''text_y'', 0)])]),
         (''R'', [(''spacing'', [(''right'', 20), (''bottom'', 1)])])],
        \<lparr>presets_file =
           Some (Json [(''Old'', [(''spacing'', [(''top'', 10), (''right'', 20)])]),
                       (''R'', [(''spacing'', [(''right'', 20), (''bottom'', 1)])])]),
         writable = False, writes = 0\<rparr>)"
proof -
  let ?stored = "[(''Old'', [(''spacing'', [(''top'', 10), (''right'', 20)])]),
                  (''R'', [(''spacing'', [(''right'', 20), (''bottom'', 1)])])] :: presets"
  let ?locked = "\<lparr>presets_file = Some (Json ?stored), writable = False, writes = 0\<rparr>"
  have on_disk: "presets_file (disk (Some (Json ?stored))) = Some (Json ?stored)"
    "presets_file ?locked = Some (Json ?stored)"
    by (simp_all add: disk_def)
  have entry: "map_of ?stored ''Old'' = Some [(''spacing'', [(''top'', 10), (''right'', 20)])]"
    and old_record: "map_of [(''spacing'', [(''top'', 10), (''right'', 20 :: int)])] ''spacing''
        = Some [(''top'', 10), (''right'', 20)]"
    and old: "old_format [(''top'', 10), (''right'', 20)]"
    by (simp_all add: old_format_def has_key_def)
  have other: "map_of ?stored ''R'' = Some [(''spacing'', [(''right'', 20), (''bottom'', 1)])]"
    "map_of [(''spacing'', [(''right'', 20), (''bottom'', 1 :: int)])] ''spacing''
        = Some [(''right'', 20), (''bottom'', 1)]"
    "\<not> old_format [(''right'', 20), (''bottom'', 1)]"
    "writable (disk (Some (Json ?stored)))" "\<not> writable ?locked"
    by (simp_all add: old_format_def has_key_def disk_def)
  from legacy_record_migrated_once [OF on_disk(1) entry old_record old,
      of "''R''" "[(''spacing'', [(''right'', 20), (''bottom'', 1)])]" "[(''right'', 20), (''bottom'', 1)]"]
    legacy_record_migrated_once [OF on_disk(2) entry old_record old,
      of "''R''" "[(''spacing'', [(''right'', 20), (''bottom'', 1)])]" "[(''right'', 20), (''bottom'', 1)]"]
    other
  show ?thesis
    by (simp add: load_presets_def dump_presets_def disk_def old_format_def has_key_def
        split: prod.splits)
qed

subsection \<open>Saving and loading a preset\<close>

lemma four_keys_current: "four_keys sp \<Longrightarrow> \<not> old_format sp"
proof -
  assume "four_keys sp"
  then have "''image_x'' \<in> fst ` set sp"
    by (simp add: four_keys_def SPACING_KEYS_def)
  then have "map_of sp ''image_x'' \<noteq> None"
    by (simp add: map_of_eq_None_iff)
  then show ?thesis
    by (simp add: old_format_def has_key_def)
qed

lemma saved_dictionary_loads:
  assumes "load_presets st = (presets, st1)" and "writable st" and "\<not> old_format sp"
  shows "save_presets (AList.update n [(''spacing'', sp)] presets) st1
           = (True, st1\<lparr>presets_file := Some (Json (AList.update n [(''spacing'', sp)] presets)),
                       writes := writes st1 + 1\<rparr>)"
    and "load_presets (st1\<lparr>presets_file := Some (Json (AList.update n [(''spacing'', sp)] presets)),
                       writes := writes st1 + 1\<rparr>)
           = (AList.update n [(''spacing'', sp)] presets,
              st1\<lparr>presets_file := Some (Json (AList.update n [(''spacing'', sp)] presets)),
                  writes := writes st1 + 1\<rparr>)"
proof -
  have "writable st1"
    using load_presets_result(2) [OF assms(1)] assms(2) by simp
  then show "save_presets (AList.update n [(''spacing'', sp)] presets) st1
           = (True, st1\<lparr>presets_file := Some (Json (AList.update n [(''spacing'', sp)] presets)),
                       writes := writes st1 + 1\<rparr>)"
    by (simp add: save_presets_def dump_presets_def)
  have "\<not> legacy [(''spacing'', sp)]"
    using assms(3) by (simp add: legacy_def)
  then have "\<forall>(k, pd) \<in> set (AList.update n [(''spacing'', sp)] presets). \<not> legacy pd"
    using load_presets_result(1) [OF assms(1)] set_update_entries [of n "[(''spacing'', sp)]" presets]
    by auto
  then show "load_presets (st1\<lparr>presets_file := Some (Json (AList.update n [(''spacing'', sp)] presets)),
                       writes := writes st1 + 1\<rparr>)
           = (AList.update n [(''spacing'', sp)] presets,
              st1\<lparr>presets_file := Some (Json (AList.update n [(''spacing'', sp)] presets)),
                  writes := writes st1 + 1\<rparr>)"
    by (intro load_presets_settled) simp_all
qed

text \<open>
  Claim C4. For every preset name \<open>n\<close> and every four-key spacing \<open>sp\<close>, saving the
  preset to a writable file and then loading all presets gives a dictionary whose record
  under \<open>n\<close> has the spacing \<open>sp\<close>, hence the same value on each of the four fields.
  The load reads the file alone, so it is the load of a fresh instance as well, and it
  leaves the file as the save wrote it. The handler \<^verbatim>\<open>save_preset\<close> performs this save
  whenever the stripped text \<open>n\<close> of its message is not empty, the text is not the Back
  button's and the session holds the spacing.
\<close>

theorem save_then_load_round_trip:
  assumes "four_keys sp" and "writable st"
  shows "(case store_preset n sp st of
            (ok, st') \<Rightarrow>
              ok
            \<and> (case load_presets st' of
                  (ps, st'') \<Rightarrow>
                    map_of ps n = Some [(''spacing'', sp)]
                  \<and> map_option (\<lambda>pd. map_of pd ''spacing'') (map_of ps n) = Some (Some sp)
                  \<and> st'' = st'))
       \<and> (message_text m = Some t \<and> t \<noteq> BACK_TEXT \<and> py_strip t = n \<and> n \<noteq> []
            \<and> user_data w (user_id (from_user m)) = Some s \<and> spacing s = Some sp
            \<and> fs w = st \<longrightarrow>
          save_preset m w =
            Inr (SETTINGS,
                 send (PresetSavedText n)
                   (w\<lparr>fs := snd (store_preset n sp st),
                      user_data := (user_data w)(user_id (from_user m) \<mapsto>
                        s\<lparr>editing_preset := None, last_preset := Some n\<rparr>)\<rparr>)))"
proof -
  obtain presets st1 where loaded: "load_presets st = (presets, st1)"
    by (cases "load_presets st")
  have current: "\<not> old_format sp"
    using assms(1) by (rule four_keys_current)
  let ?ps = "AList.update n [(''spacing'', sp)] presets"
  let ?st2 = "st1\<lparr>presets_file := Some (Json ?ps), writes := writes st1 + 1\<rparr>"
  have saved: "save_presets ?ps st1 = (True, ?st2)"
    and reloaded: "load_presets ?st2 = (?ps, ?st2)"
    using saved_dictionary_loads [OF loaded assms(2) current] by simp_all
  have stored: "store_preset n sp st = (True, ?st2)"
    using loaded saved by (simp add: store_preset_def)
  have found: "map_of ?ps n = Some [(''spacing'', sp)]"
    by (simp add: update_conv')
  have handler: "save_preset m w =
            Inr (SETTINGS,
                 send (PresetSavedText n)
                   (w\<lparr>fs := snd (store_preset n sp st),
                      user_data := (user_data w)(user_id (from_user m) \<mapsto>
                        s\<lparr>editing_preset := None, last_preset := Some n\<rparr>)\<rparr>))"
    if "message_text m = Some t" "t \<noteq> BACK_TEXT" "py_strip t = n" "n \<noteq> []"
      "user_data w (user_id (from_user m)) = Some s" "spacing s = Some sp" "fs w = st"
    using that stored by (simp add: save_preset_def Let_def)
  show ?thesis
    using stored reloaded found handler by simp
qed

lemma sample_name_stripped: "py_strip '' Demo '' = ''Demo''"
  by code_simp

theorem save_then_load_round_trip_witness:
  "store_preset ''Demo'' demo_spacing (disk None)
     = (True, \<lparr>presets_file = Some (Json [(''Demo'', [(''spacing'', demo_spacing)])]),
               writable = True, writes = 1\<rparr>)
   \<and> load_presets \<lparr>presets_file = Some (Json [(''Demo'', [(''spacing'', demo_spacing)])]),
                    writable = True, writes = 1\<rparr>
     = ([(''Demo'', [(''spacing'', demo_spacing)])],
        \<lparr>presets_file = Some (Json [(''Demo'', [(''spacing'', demo_spacing)])]),
         writable = True, writes = 1\<rparr>)
   \<and> save_preset (text_message '' Demo '') (world_of (empty_session\<lparr>spacing := Some demo_spacing\<rparr>))
     = Inr (SETTINGS,
            \<lparr>user_data = [7 \<mapsto> empty_session\<lparr>spacing := Some demo_spacing,
                                                 last_preset := Some ''Demo''\<rparr>],
             fs = \<lparr>presets_file = Some (Json [(''Demo'', [(''spacing'', demo_spacing)])]),
                   writable = True, writes = 1\<rparr>,
             sent = [PresetSavedText ''Demo'']\<rparr>)"
proof -
  let ?s = "empty_session\<lparr>spacing := Some demo_spacing\<rparr>"
  have sample: "four_keys demo_spacing" "writable (disk None)"
    by (auto simp: four_keys_def demo_spacing_def SPACING_KEYS_def disk_def)
  have stored: "store_preset ''Demo'' demo_spacing (disk None)
     = (True, \<lparr>presets_file = Some (Json [(''Demo'', [(''spacing'', demo_spacing)])]),
               writable = True, writes = 1\<rparr>)"
    by (simp add: store_preset_def load_presets_def save_presets_def dump_presets_def disk_def)
  have reloaded: "load_presets \<lparr>presets_file = Some (Json [(''Demo'', [(''spacing'', demo_spacing)])]),
                    writable = True, writes = 1\<rparr>
     = ([(''Demo'', [(''spacing'', demo_spacing)])],
        \<lparr>presets_file = Some (Json [(''Demo'', [(''spacing'', demo_spacing)])]),
         writable = True, writes = 1\<rparr>)"
    by (simp add: load_presets_def old_format_def has_key_def demo_spacing_def)
  have pressed: "message_text (text_message '' Demo '') = Some '' Demo ''"
    "'' Demo '' \<noteq> BACK_TEXT" "py_strip '' Demo '' = ''Demo''" "''Demo'' \<noteq> []"
    "user_data (world_of ?s) (user_id (from_user (text_message '' Demo ''))) = Some ?s"
    "spacing ?s = Some demo_spacing" "fs (world_of ?s) = disk None"
    by (simp_all add: text_message_def BACK_TEXT_def sample_name_stripped world_of_def
        alice_def)
  from save_then_load_round_trip [OF sample, of "''Demo''" "text_message '' Demo ''" "'' Demo ''"
      "world_of ?s" ?s] pressed reloaded
  show ?thesis
    by (simp add: stored send_def world_of_def text_message_def alice_def empty_session_def)
qed

subsection \<open>Missing keys of a stored record\<close>

lemma map_of_set_if_missing:
  "map_of (set_if_missing k sp) k' = (if k' = k then Some (get_or_zero sp k) else map_of sp k')"
  by (auto simp: set_if_missing_def has_key_def get_or_zero_def update_conv')

lemma get_or_zero_set_if_missing:
  "get_or_zero (set_if_missing k sp) k' = get_or_zero sp k'"
  by (simp add: get_or_zero_def map_of_set_if_missing)

lemma fill_missing_keys_values:
  "k \<in> set SPACING_KEYS \<Longrightarrow> map_of (fill_missing_keys sp) k = Some (get_or_zero sp k)"
  by (auto simp: fill_missing_keys_def SPACING_KEYS_def map_of_set_if_missing
      get_or_zero_set_if_missing)

lemma fill_missing_keys_others:
  "k \<notin> set SPACING_KEYS \<Longrightarrow> map_of (fill_missing_keys sp) k = map_of sp k"
  by (simp add: fill_missing_keys_def SPACING_KEYS_def map_of_set_if_missing)

lemma preset_buttons_listed:
  "\<exists>buttons. preset_buttons ps = Inr buttons
     \<and> (\<forall>n pd sp. (n, pd) \<in> set ps \<and> map_of pd ''spacing'' = Some sp \<longrightarrow>
           (n, get_or_zero sp ''image_x'', get_or_zero sp ''image_y'') \<in> set buttons)"
proof (induction ps)
  case Nil
  then show ?case by simp
next
  case (Cons entry ps)
  obtain n pd where entry: "entry = (n, pd)"
    by (cases entry)
  from Cons obtain buttons where rest: "preset_buttons ps = Inr buttons"
    "\<forall>n pd sp. (n, pd) \<in> set ps \<and> map_of pd ''spacing'' = Some sp \<longrightarrow>
       (n, get_or_zero sp ''image_x'', get_or_zero sp ''image_y'') \<in> set buttons"
    by blast
  show ?case
  proof (cases "map_of pd ''spacing''")
    case None
    then show ?thesis
      using entry rest by auto
  next
    case (Some stored)
    have "map_of (fill_missing_keys stored) ''image_x'' = Some (get_or_zero stored ''image_x'')"
      "map_of (fill_missing_keys stored) ''image_y'' = Some (get_or_zero stored ''image_y'')"
      by (simp_all add: fill_missing_keys_values SPACING_KEYS_def)
    then show ?thesis
      using entry rest Some by auto
  qed
qed

text \<open>
  Claim C6, as stated: every record that \<^verbatim>\<open>load_presets\<close> returns contains the four
  keys, a key absent from the document being filled in with 0. It fails on a document
  whose preset \<^verbatim>\<open>A\<close> stores \<^verbatim>\<open>image_x\<close> alone: \<^verbatim>\<open>load_presets\<close> returns the
  record as stored, without \<^verbatim>\<open>image_y\<close>, \<^verbatim>\<open>text_x\<close> and \<^verbatim>\<open>text_y\<close>.
\<close>

theorem load_presets_partial_record_counterexample:
  "load_presets (disk (Some (Json [(''A'', [(''spacing'', [(''image_x'', 5)])])])))
     = ([(''A'', [(''spacing'', [(''image_x'', 5)])])],
        disk (Some (Json [(''A'', [(''spacing'', [(''image_x'', 5)])])])))
   \<and> \<not> has_key [(''image_x'', 5 :: int)] ''image_y''"
  by (simp add: load_presets_def disk_def old_format_def has_key_def)

text \<open>
  Claim C6, amended. \<^verbatim>\<open>load_presets\<close> returns a record that is not in the old format
  as it is stored, absent keys included. The keys are filled in by the consumers, each on
  the record it takes from the loaded dictionary: \<^verbatim>\<open>load_preset\<close> installs in the
  session the stored spacing with every absent key among the four set to 0 and the stored
  values kept, and \<^verbatim>\<open>presets_menu\<close> labels the preset's button from the values so
  filled in. The preset is the one that \<^verbatim>\<open>load_preset\<close> identifies, from the name
  that \<^verbatim>\<open>command_handler\<close> selected or from the text of the pressed button.
\<close>

theorem consumers_fill_missing_keys:
  assumes "presets_file (fs w) = Some (Json stored)"
    and "map_of stored n = Some pd" and "map_of pd ''spacing'' = Some sp"
    and "\<not> old_format sp"
    and "selected = Some n
         \<or> (selected = None \<and> message_text m = Some t \<and> prefix ''Preset:'' t
            \<and> button_preset_name t = n)"
  shows "map_of (fst (load_presets (fs w))) n = Some pd
       \<and> load_preset selected m w =
           Inr (SETTINGS,
                send (PresetLoadedText n)
                  (w\<lparr>fs := snd (load_presets (fs w)),
                     user_data := (user_data w)(user_id (from_user m) \<mapsto>
                       (case user_data w (user_id (from_user m)) of
                          None \<Rightarrow> empty_session
                        | Some s \<Rightarrow> s)
                       \<lparr>spacing := Some (fill_missing_keys sp), last_preset := Some n\<rparr>)\<rparr>))
       \<and> (\<forall>k \<in> set SPACING_KEYS. map_of (fill_missing_keys sp) k = Some (get_or_zero sp k))
       \<and> (\<forall>k. k \<notin> set SPACING_KEYS \<longrightarrow> map_of (fill_missing_keys sp) k = map_of sp k)
       \<and> (case presets_menu m w of
             Inl err \<Rightarrow> False
           | Inr (state, w') \<Rightarrow>
               state = PRESETS
             \<and> (\<exists>buttons. sent w' = sent w @ [PresetsMenuText buttons True]
                   \<and> (n, get_or_zero sp ''image_x'', get_or_zero sp ''image_y'') \<in> set buttons))"
proof -
  obtain ps st1 where loaded: "load_presets (fs w) = (ps, st1)"
    by (cases "load_presets (fs w)")
  have ps: "ps = map (\<lambda>(n, pd). (n, migrate_data pd)) stored"
    using loaded assms(1)
    by (auto simp: load_presets_def migrate_loop_characterised split: if_splits option.splits)
  have kept: "migrate_data pd = pd"
    using assms(3,4) by (simp add: migrate_data_def)
  have "map_of ps n = map_option migrate_data (map_of stored n)"
    unfolding ps by (simp add: map_of_map)
  then have found: "map_of ps n = Some pd"
    using assms(2) kept by simp
  then have listed: "(n, pd) \<in> set ps"
    by (rule map_of_SomeD)
  obtain buttons where buttons: "preset_buttons ps = Inr buttons"
    "(n, get_or_zero sp ''image_x'', get_or_zero sp ''image_y'') \<in> set buttons"
    using preset_buttons_listed [of ps] listed assms(3) by blast
  have menu: "presets_menu m w
      = Inr (PRESETS, send (PresetsMenuText buttons True) (w\<lparr>fs := st1\<rparr>))"
  proof -
    have "ps \<noteq> []"
      using listed by auto
    then show ?thesis
      using loaded buttons(1) by (simp add: presets_menu_def)
  qed
  have consumer: "load_preset selected m w =
           Inr (SETTINGS,
                send (PresetLoadedText n)
                  (w\<lparr>fs := st1,
                     user_data := (user_data w)(user_id (from_user m) \<mapsto>
                       (case user_data w (user_id (from_user m)) of
                          None \<Rightarrow> empty_session
                        | Some s \<Rightarrow> s)
                       \<lparr>spacing := Some (fill_missing_keys sp), last_preset := Some n\<rparr>)\<rparr>))"
    using loaded found assms(3,5) by (auto simp: load_preset_def Let_def)
  show ?thesis
    using loaded found consumer menu buttons(2)
    by (simp add: fill_missing_keys_values fill_missing_keys_others send_def)
qed

theorem consumers_fill_missing_keys_witness:
  "load_presets (disk (Some (Json [(''A'', [(''spacing'', [(''image_x'', 5)])])])))
     = ([(''A'', [(''spacing'', [(''image_x'', 5)])])],
        disk (Some (Json [(''A'', [(''spacing'', [(''image_x'', 5)])])])))
   \<and> load_preset None (text_message ''Preset: A (5px Right)'')
       \<lparr>user_data = Map.empty,
        fs = disk (Some (Json [(''A'', [(''spacing'', [(''image_x'', 5)])])])), sent = []\<rparr>
     = Inr (SETTINGS,
            \<lparr>user_data =
               [7 \<mapsto> empty_session
                  \<lparr>spacing := Some [(''image_x'', 5), (''image_y'', 0), (''text_x'', 0),
                                     (''text_y'', 0)],
                   last_preset := Some ''A''\<rparr>],
             fs = disk (Some (Json [(''A'', [(''spacing'', [(''image_x'', 5)])])])),
             sent = [PresetLoadedText ''A'']\<rparr>)
   \<and> presets_menu (text_message ''Preset: A (5px Right)'')
       \<lparr>user_data = Map.empty,
        fs = disk (Some (Json [(''A'', [(''spacing'', [(''image_x'', 5)])])])), sent = []\<rparr>
     = Inr (PRESETS,
            \<lparr>user_data = Map.empty,
             fs = disk (Some (Json [(''A'', [(''spacing'', [(''image_x'', 5)])])])),
             sent = [PresetsMenuText [(''A'', 5, 0)] True]\<rparr>)"
proof -
  let ?stored = "[(''A'', [(''spacing'', [(''image_x'', 5)])])] :: presets"
  let ?w = "\<lparr>user_data = Map.empty, fs = disk (Some (Json ?stored)), sent = []\<rparr>"
  let ?m = "text_message ''Preset: A (5px Right)''"
  have on_disk: "presets_file (fs ?w) = Some (Json ?stored)"
    by (simp add: disk_def)
  have entry: "map_of ?stored ''A'' = Some [(''spacing'', [(''image_x'', 5)])]"
    "map_of [(''spacing'', [(''image_x'', 5 :: int)])] ''spacing'' = Some [(''image_x'', 5)]"
    "\<not> old_format [(''image_x'', 5)]"
    by (simp_all add: old_format_def has_key_def)
  have button: "button_preset_name ''Preset: A (5px Right)'' = ''A''"
    by code_simp
  have pressed: "None = Some ''A''
      \<or> (None = None \<and> message_text ?m = Some ''Preset: A (5px Right)''
          \<and> prefix ''Preset:'' ''Preset: A (5px Right)''
          \<and> button_preset_name ''Preset: A (5px Right)'' = ''A'')"
    using button by (simp add: text_message_def)
  have loads: "load_presets (disk (Some (Json ?stored))) = (?stored, disk (Some (Json ?stored)))"
    by (simp add: load_presets_def disk_def old_format_def has_key_def)
  have filled: "fill_missing_keys [(''image_x'', 5)]
      = [(''image_x'', 5), (''image_y'', 0), (''text_x'', 0), (''text_y'', 0)]"
    by (simp add: fill_missing_keys_def set_if_missing_def has_key_def)
  have menu: "presets_menu ?m ?w
      = Inr (PRESETS, \<lparr>user_data = Map.empty, fs = disk (Some (Json ?stored)),
                        sent = [PresetsMenuText [(''A'', 5, 0)] True]\<rparr>)"
    by (simp add: presets_menu_def loads send_def filled)
  have sender: "user_id (from_user ?m) = 7"
    by (simp add: text_message_def alice_def)
  from consumers_fill_missing_keys [OF on_disk entry pressed]
  have "load_preset None ?m ?w =
      Inr (SETTINGS,
           send (PresetLoadedText ''A'')
             (?w\<lparr>fs := snd (load_presets (fs ?w)),
                 user_data := (user_data ?w)(user_id (from_user ?m) \<mapsto>
                   (case user_data ?w (user_id (from_user ?m)) of
                      None \<Rightarrow> empty_session
                    | Some s \<Rightarrow> s)
                   \<lparr>spacing := Some (fill_missing_keys [(''image_x'', 5)]),
                    last_preset := Some ''A''\<rparr>)\<rparr>))"
    by blast
  then have "load_preset None ?m ?w =
      Inr (SETTINGS,
           \<lparr>user_data =
              [7 \<mapsto> empty_session
                 \<lparr>spacing := Some [(''image_x'', 5), (''image_y'', 0), (''text_x'', 0),
                                    (''text_y'', 0)],
                  last_preset := Some ''A''\<rparr>],
            fs = disk (Some (Json ?stored)), sent = [PresetLoadedText ''A'']\<rparr>)"
    by (simp add: loads send_def sender filled)
  then show ?thesis
    using loads menu by simp
qed

subsection \<open>Spacings of sessions are complete\<close>

lemma first_missing_None_iff: "first_missing ks sp = None \<longleftrightarrow> (\<forall>k \<in> set ks. has_key sp k)"
  by (induction ks) auto

lemma fill_missing_keys_complete: "first_missing SPACING_KEYS (fill_missing_keys sp) = None"
  by (simp add: first_missing_None_iff has_key_def fill_missing_keys_values)

lemma complete_sessions_update:
  assumes "complete_sessions ud"
    and "\<forall>sp. spacing s = Some sp \<longrightarrow> first_missing SPACING_KEYS sp = None"
  shows "complete_sessions (ud(uid \<mapsto> s))"
  using assms unfolding complete_sessions_def by auto

lemma ensure_spacing_complete:
  assumes "complete_sessions ud" and "ensure_spacing uid ud = (s, sp)"
  shows "first_missing SPACING_KEYS sp = None" and "spacing s = Some sp"
  using assms
  by (auto simp: ensure_spacing_def Let_def complete_sessions_def default_spacing_complete
      empty_session_def split: option.splits)

lemma settings_complete:
  assumes "complete_sessions (user_data w)" and "settings m w = Inr (state, w')"
  shows "complete_sessions (user_data w')"
proof -
  obtain s sp where e: "ensure_spacing (user_id (from_user m)) (user_data w) = (s, sp)"
    by (cases "ensure_spacing (user_id (from_user m)) (user_data w)")
  have "user_data w' = (user_data w)(user_id (from_user m) \<mapsto> s)"
    using assms(2) e by (auto simp: settings_def send_def split: option.splits)
  then show ?thesis
    using assms(1) ensure_spacing_complete [OF assms(1) e]
    by (simp add: complete_sessions_update)
qed

lemma custom_spacing_menu_complete:
  assumes "complete_sessions (user_data w)" and "custom_spacing_menu m w = Inr (state, w')"
  shows "complete_sessions (user_data w')"
proof -
  obtain s sp where e: "ensure_spacing (user_id (from_user m)) (user_data w) = (s, sp)"
    by (cases "ensure_spacing (user_id (from_user m)) (user_data w)")
  have "user_data w' = (user_data w)(user_id (from_user m) \<mapsto> s)"
    using assms(2) e by (auto simp: custom_spacing_menu_def send_def split: option.splits)
  then show ?thesis
    using assms(1) ensure_spacing_complete [OF assms(1) e]
    by (simp add: complete_sessions_update)
qed

lemma handle_direction_selection_complete:
  assumes "complete_sessions (user_data w)" and "handle_direction_selection m w = Inr (state, w')"
  shows "complete_sessions (user_data w')"
proof (cases "message_text m = Some BACK_TEXT")
  case True
  then show ?thesis
    using assms settings_complete by (simp add: handle_direction_selection_def)
next
  case False
  obtain s sp where e: "ensure_spacing (user_id (from_user m)) (user_data w) = (s, sp)"
    by (cases "ensure_spacing (user_id (from_user m)) (user_data w)")
  note c = ensure_spacing_complete [OF assms(1) e]
  let ?w1 = "w\<lparr>user_data := (user_data w)(user_id (from_user m) \<mapsto> s)\<rparr>"
  have w1: "complete_sessions (user_data ?w1)"
    using assms(1) c by (simp add: complete_sessions_update)
  obtain t where t: "message_text m = Some t"
    using assms(2) False e by (cases "message_text m") (auto simp: handle_direction_selection_def)
  show ?thesis
  proof (cases "position_key t")
    case None
    then have "custom_spacing_menu m ?w1 = Inr (state, w')"
      using assms(2) False e t by (simp add: handle_direction_selection_def)
    then show ?thesis
      using w1 custom_spacing_menu_complete by blast
  next
    case (Some k)
    then have "user_data w'
        = (user_data w)(user_id (from_user m) \<mapsto> s\<lparr>current_spacing_key := Some k\<rparr>)"
      using assms(2) False e t
      by (auto simp: handle_direction_selection_def send_def split: option.splits)
    then show ?thesis
      using assms(1) c by (simp add: complete_sessions_update)
  qed
qed

text \<open>
  The state awaiting a value is entered from the position menu with a session that holds
  a complete spacing and the pressed button's key as pending key.
\<close>

lemma handle_direction_selection_pending:
  assumes "complete_sessions (user_data w)"
    and "handle_direction_selection m w = Inr (SPACING_INPUT, w')"
  shows "\<exists>s sp k. user_data w' (user_id (from_user m)) = Some s \<and> spacing s = Some sp
           \<and> first_missing SPACING_KEYS sp = None \<and> current_spacing_key s = Some k
           \<and> k \<in> set SPACING_KEYS"
proof -
  obtain s sp where e: "ensure_spacing (user_id (from_user m)) (user_data w) = (s, sp)"
    by (cases "ensure_spacing (user_id (from_user m)) (user_data w)")
  note c = ensure_spacing_complete [OF assms(1) e]
  have no_back: "message_text m \<noteq> Some BACK_TEXT"
    using assms(2) by (auto simp: handle_direction_selection_def settings_def Let_def
        split: prod.splits option.splits)
  obtain t where t: "message_text m = Some t"
    using assms(2) no_back e by (cases "message_text m") (auto simp: handle_direction_selection_def)
  obtain k where k: "position_key t = Some k"
    using assms(2) no_back e t
    by (cases "position_key t")
       (auto simp: handle_direction_selection_def custom_spacing_menu_def Let_def
          split: prod.splits option.splits)
  have "k \<in> set SPACING_KEYS"
    using k by (auto simp: position_key_def SPACING_KEYS_def split: if_splits)
  moreover have "user_data w'
      = (user_data w)(user_id (from_user m) \<mapsto> s\<lparr>current_spacing_key := Some k\<rparr>)"
    using assms(2) no_back e t k
    by (auto simp: handle_direction_selection_def send_def split: option.splits)
  ultimately show ?thesis
    using c by simp
qed

lemma handle_spacing_input_complete:
  assumes "complete_sessions (user_data w)" and "handle_spacing_input m w = Inr (state, w')"
  shows "complete_sessions (user_data w')"
proof (cases "message_text m = Some BACK_TEXT")
  case True
  then show ?thesis
    using assms custom_spacing_menu_complete by (simp add: handle_spacing_input_def)
next
  case False
  let ?uid = "user_id (from_user m)"
  let ?s = "case user_data w ?uid of
              None \<Rightarrow> empty_session\<lparr>spacing := Some DEFAULT_SPACING\<rparr>
            | Some s \<Rightarrow> s"
  have s: "\<forall>sp. spacing ?s = Some sp \<longrightarrow> first_missing SPACING_KEYS sp = None"
    using assms(1)
    by (auto simp: complete_sessions_def default_spacing_complete split: option.splits)
  obtain t where t: "message_text m = Some t"
    using assms(2) False by (cases "message_text m") (auto simp: handle_spacing_input_def Let_def)
  show ?thesis
  proof (cases "py_int (py_strip t)")
    case None
    then have "user_data w' = (user_data w)(?uid \<mapsto> ?s)"
      using assms(2) False t by (auto simp: handle_spacing_input_def Let_def send_def)
    then show ?thesis
      using assms(1) s by (simp add: complete_sessions_update)
  next
    case (Some v)
    then obtain sp where sp: "spacing ?s = Some sp"
      using assms(2) False t
      by (cases "spacing ?s") (auto simp: handle_spacing_input_def Let_def)
    let ?k = "case current_spacing_key ?s of None \<Rightarrow> ''image_x'' | Some k \<Rightarrow> k"
    let ?w2 = "w\<lparr>user_data := (user_data w)(?uid \<mapsto> ?s\<lparr>spacing := Some (AList.update ?k v sp)\<rparr>)\<rparr>"
    have "custom_spacing_menu m ?w2 = Inr (state, w')"
      using assms(2) False t Some sp by (simp add: handle_spacing_input_def Let_def)
    moreover have "complete_sessions (user_data ?w2)"
      using assms(1) s sp by (simp add: complete_sessions_update first_missing_update)
    ultimately show ?thesis
      using custom_spacing_menu_complete by blast
  qed
qed

lemma complete_sessions_same_spacing:
  assumes "complete_sessions ud" and "ud uid = Some s" and "spacing s' = spacing s"
  shows "complete_sessions (ud(uid \<mapsto> s'))"
  using assms unfolding complete_sessions_def by (auto split: if_splits)

lemma cancel_complete:
  assumes "complete_sessions (user_data w)" and "cancel m w = Inr (state, w')"
  shows "complete_sessions (user_data w')"
proof (cases "user_data w (user_id (from_user m))")
  case None
  then have "user_data w' = user_data w"
    using assms(2) by (auto simp: cancel_def send_def)
  then show ?thesis
    using assms(1) by simp
next
  case (Some s)
  then have "user_data w' = (user_data w)(user_id (from_user m) \<mapsto> settings_data s)"
    using assms(2) by (auto simp: cancel_def send_def)
  moreover have "spacing (settings_data s) = spacing s"
    by (simp add: settings_data_def)
  ultimately show ?thesis
    using assms(1) Some by (simp add: complete_sessions_same_spacing)
qed

lemma first_image_complete:
  assumes "complete_sessions (user_data w)" and "first_image m w = Inr (state, w')"
  shows "complete_sessions (user_data w')"
proof -
  obtain s sp where e: "ensure_spacing (user_id (from_user m)) (user_data w) = (s, sp)"
    by (cases "ensure_spacing (user_id (from_user m)) (user_data w)")
  note c = ensure_spacing_complete [OF assms(1) e]
  have "\<exists>s'. user_data w' = (user_data w)(user_id (from_user m) \<mapsto> s') \<and> spacing s' = Some sp"
    using assms(2) e c(2)
    by (auto simp: first_image_def Let_def send_def split: media.splits option.splits)
  then show ?thesis
    using assms(1) c(1) by (auto simp: complete_sessions_update)
qed

lemma second_image_complete:
  assumes "complete_sessions (user_data w)" and "second_image m w = Inr (state, w')"
  shows "complete_sessions (user_data w')"
proof (cases "message_text m = Some CANCEL_TEXT")
  case True
  then show ?thesis
    using assms cancel_complete by (simp add: second_image_def)
next
  case False
  have "user_data w' = user_data w
      \<or> (\<exists>s s'. user_data w (user_id (from_user m)) = Some s
            \<and> user_data w' = (user_data w)(user_id (from_user m) \<mapsto> s')
            \<and> spacing s' = spacing s)"
    using assms(2) False
    by (auto simp: second_image_def Let_def send_def split: media.splits option.splits)
  then show ?thesis
  proof
    assume "user_data w' = user_data w"
    then show ?thesis using assms(1) by simp
  next
    assume "\<exists>s s'. user_data w (user_id (from_user m)) = Some s
            \<and> user_data w' = (user_data w)(user_id (from_user m) \<mapsto> s')
            \<and> spacing s' = spacing s"
    then obtain s s' where "user_data w (user_id (from_user m)) = Some s"
      "user_data w' = (user_data w)(user_id (from_user m) \<mapsto> s')" "spacing s' = spacing s"
      by blast
    then show ?thesis
      using assms(1) by (simp add: complete_sessions_same_spacing)
  qed
qed

lemma process_name_complete:
  assumes "complete_sessions (user_data w)" and "process_name e m w = Inr (state, w')"
  shows "complete_sessions (user_data w')"
proof (cases "message_text m = Some CANCEL_TEXT")
  case True
  then show ?thesis
    using assms cancel_complete by (simp add: process_name_def)
next
  case False
  have "user_data w' = user_data w
      \<or> (\<exists>s. user_data w (user_id (from_user m)) = Some s
            \<and> user_data w' = (user_data w)(user_id (from_user m) \<mapsto> settings_data s))"
    using assms(2) False
    by (auto simp: process_name_def report_error_def Let_def send_def
        split: option.splits sum.splits if_splits)
  moreover have "spacing (settings_data s) = spacing s" for s
    by (simp add: settings_data_def)
  ultimately show ?thesis
    using assms(1) by (auto simp: complete_sessions_same_spacing)
qed

lemma save_preset_complete:
  assumes "complete_sessions (user_data w)" and "save_preset m w = Inr (state, w')"
  shows "complete_sessions (user_data w')"
proof (cases "message_text m = Some BACK_TEXT")
  case True
  then show ?thesis
    using assms settings_complete by (simp add: save_preset_def)
next
  case False
  have "user_data w' = user_data w
      \<or> (\<exists>s s'. user_data w (user_id (from_user m)) = Some s
            \<and> user_data w' = (user_data w)(user_id (from_user m) \<mapsto> s')
            \<and> spacing s' = spacing s)"
    using assms(2) False
    by (auto simp: save_preset_def Let_def send_def
        split: option.splits prod.splits bool.splits if_splits)
  then show ?thesis
    using assms(1) by (auto simp: complete_sessions_same_spacing)
qed

lemma load_preset_complete:
  assumes "complete_sessions (user_data w)" and "load_preset selected m w = Inr (state, w')"
  shows "complete_sessions (user_data w')"
proof -
  have "user_data w' = user_data w
      \<or> (\<exists>s' sp. user_data w' = (user_data w)(user_id (from_user m) \<mapsto> s')
            \<and> spacing s' = Some sp \<and> first_missing SPACING_KEYS sp = None)"
    using assms(2)
    by (auto simp: load_preset_def Let_def send_def fill_missing_keys_complete
        default_spacing_complete split: option.splits prod.splits sum.splits if_splits)
  then show ?thesis
    using assms(1) by (auto simp: complete_sessions_update)
qed

lemma presets_menu_complete:
  assumes "complete_sessions (user_data w)" and "presets_menu m w = Inr (state, w')"
  shows "complete_sessions (user_data w')"
  using assms by (auto simp: presets_menu_def send_def split: prod.splits sum.splits)

end
